theory Spec2Isabelle
  imports Main "HOL-Library.Sublist"
begin

section \<open>Python strings and exceptions\<close>

text \<open>
  A Python \<open>str\<close> is modelled by its UTF-8 encoding, a \<open>string\<close> of bytes; the source
  file itself is UTF-8, so every template below is the byte sequence of the source text.
  Concatenation, equality, \<open>split\<close> and \<open>in\<close> with the ASCII separators of the source
  commute with the encoding. \<open>str.strip()\<close> removes the code points that Python counts as
  whitespace; \<open>whitespace\<close> lists their encodings (U+0009..U+000D, U+001C..U+0020,
  U+0085, U+00A0, U+1680, U+2000..U+200A, U+2028, U+2029, U+202F, U+205F, U+3000).
\<close>

definition whitespace :: "string list" where
  "whitespace =
     [[CHR 0x09], [CHR 0x0A], [CHR 0x0B], [CHR 0x0C], [CHR 0x0D],
      [CHR 0x1C], [CHR 0x1D], [CHR 0x1E], [CHR 0x1F], [CHR 0x20],
      [CHR 0xC2, CHR 0x85], [CHR 0xC2, CHR 0xA0], [CHR 0xE1, CHR 0x9A, CHR 0x80],
      [CHR 0xE2, CHR 0x80, CHR 0x80], [CHR 0xE2, CHR 0x80, CHR 0x81],
      [CHR 0xE2, CHR 0x80, CHR 0x82], [CHR 0xE2, CHR 0x80, CHR 0x83],
      [CHR 0xE2, CHR 0x80, CHR 0x84], [CHR 0xE2, CHR 0x80, CHR 0x85],
      [CHR 0xE2, CHR 0x80, CHR 0x86], [CHR 0xE2, CHR 0x80, CHR 0x87],
      [CHR 0xE2, CHR 0x80, CHR 0x88], [CHR 0xE2, CHR 0x80, CHR 0x89],
      [CHR 0xE2, CHR 0x80, CHR 0x8A], [CHR 0xE2, CHR 0x80, CHR 0xA8],
      [CHR 0xE2, CHR 0x80, CHR 0xA9], [CHR 0xE2, CHR 0x80, CHR 0xAF],
      [CHR 0xE2, CHR 0x81, CHR 0x9F], [CHR 0xE3, CHR 0x80, CHR 0x80]]"

definition ws_prefix :: "string \<Rightarrow> string option" where
  "ws_prefix s = find (\<lambda>w. prefix w s) whitespace"

definition ws_suffix :: "string \<Rightarrow> string option" where
  "ws_suffix s = find (\<lambda>w. suffix w s) whitespace"

function lstrip :: "string \<Rightarrow> string" where
  "lstrip s = (case ws_prefix s of None \<Rightarrow> s | Some w \<Rightarrow> lstrip (drop (length w) s))"
  by pat_completeness auto
termination
proof (relation "measure length")
  show "wf (measure length)" by simp
  show "(drop (length w) s, s) \<in> measure length" if "ws_prefix s = Some w" for s w
    using that
    by (auto simp: ws_prefix_def find_Some_iff whitespace_def prefix_def nth_Cons'
             split: if_splits)
qed

function rstrip :: "string \<Rightarrow> string" where
  "rstrip s = (case ws_suffix s of None \<Rightarrow> s
               | Some w \<Rightarrow> rstrip (take (length s - length w) s))"
  by pat_completeness auto
termination
proof (relation "measure length")
  show "wf (measure length)" by simp
  show "(take (length s - length w) s, s) \<in> measure length" if "ws_suffix s = Some w" for s w
    using that
    by (auto simp: ws_suffix_def find_Some_iff whitespace_def suffix_def nth_Cons'
             split: if_splits)
qed

declare lstrip.simps [simp del] rstrip.simps [simp del]

definition strip :: "string \<Rightarrow> string" where
  "strip s = rstrip (lstrip s)"

text \<open>
  \<open>sep.join(xs)\<close>, and \<open>s.split(sep)\<close> for a non-empty separator (the source splits on
  the constants \<open>','\<close> and \<open>'|||'\<close> only): the leftmost occurrence of the separator ends
  the current piece, and the scan goes on after it.
\<close>

fun py_join :: "string \<Rightarrow> string list \<Rightarrow> string" where
  "py_join sep [] = []"
| "py_join sep [x] = x"
| "py_join sep (x # y # ys) = x @ sep @ py_join sep (y # ys)"

function py_split :: "string \<Rightarrow> string \<Rightarrow> string list" where
  "py_split sep s =
     (if s = [] then [[]]
      else if sep \<noteq> [] \<and> prefix sep s then [] # py_split sep (drop (length sep) s)
      else (case py_split sep (tl s) of
              [] \<Rightarrow> [[hd s]]
            | p # ps \<Rightarrow> (hd s # p) # ps))"
  by pat_completeness auto
termination
  by (relation "measure (\<lambda>(sep, s). length s)") auto

declare py_split.simps [simp del]

text \<open>\<open>s.replace(old, new)\<close> for a one-character \<open>old\<close>.\<close>

definition py_replace1 :: "char \<Rightarrow> string \<Rightarrow> string \<Rightarrow> string" where
  "py_replace1 old new s = concat (map (\<lambda>c. if c = old then new else [c]) s)"

text \<open>
  \<open>s.lower()\<close> on the ASCII letters. The source uses the result only as a key of
  \<open>list_mapping\<close>, whose keys are ASCII words without the letter k; the only
  non-ASCII code point whose lower case is an ASCII letter is U+212A (to k), so the
  lookup of \<open>lower s\<close> and of Python's \<open>s.lower()\<close> agree on every string.
\<close>

definition lower_char :: "char \<Rightarrow> char" where
  "lower_char c =
     (let n = (of_char c :: nat) in if 65 \<le> n \<and> n \<le> 90 then char_of (n + 32) else c)"

definition lower :: "string \<Rightarrow> string" where
  "lower s = map lower_char s"

text \<open>\<open>str(n)\<close> for an integer: decimal digits, with a minus sign when negative.\<close>

function str_nat :: "nat \<Rightarrow> string" where
  "str_nat n = (if n < 10 then [char_of (48 + n)]
                else str_nat (n div 10) @ [char_of (48 + n mod 10)])"
  by pat_completeness auto
termination
  by (relation "measure id") auto

declare str_nat.simps [simp del]

definition str_int :: "int \<Rightarrow> string" where
  "str_int i = (if i < 0 then CHR ''-'' # str_nat (nat (- i)) else str_nat (nat i))"

text \<open>
  The exceptions the source raises or catches, and \<open>str(e)\<close>. \<open>KeyError\<close> carries the
  missing key, and its text is the key's \<open>repr\<close>; the other classes carry their message.
  \<open>TimeoutExpired\<close> is caught by a clause of its own before any \<open>str\<close> is taken of it,
  so its text is never used.
\<close>

datatype py_exn =
    Exception string
  | TimeoutExpired
  | OSError string
  | KeyError string
  | ValueError string
  | IndexError

fun str_exn :: "py_exn \<Rightarrow> string" where
  "str_exn (Exception m) = m"
| "str_exn TimeoutExpired = ''Command timed out after 10 seconds''"
| "str_exn (OSError m) = m"
| "str_exn (KeyError k) = [CHR 0x27] @ k @ [CHR 0x27]"
| "str_exn (ValueError m) = m"
| "str_exn IndexError = ''list index out of range''"

text \<open>The class of an exception object, as \<open>type(e).__name__\<close> gives it.\<close>

fun exception_class :: "py_exn \<Rightarrow> string" where
  "exception_class (Exception m) = ''Exception''"
| "exception_class TimeoutExpired = ''TimeoutExpired''"
| "exception_class (OSError m) = ''OSError''"
| "exception_class (KeyError k) = ''KeyError''"
| "exception_class (ValueError m) = ''ValueError''"
| "exception_class IndexError = ''IndexError''"

section \<open>The process invoker\<close>

text \<open>
  \<open>subprocess.run(argv, capture_output=True, text=True, timeout=10)\<close> either completes
  with a return code, standard output and standard error, or raises: \<open>TimeoutExpired\<close>
  after the ten seconds, or another exception (the program cannot be started, the output
  cannot be decoded). The operating system is a parameter \<open>run\<close> of the model.
\<close>

datatype run_outcome =
    CompletedProcess int string string
  | Raises py_exn

type_synonym runner = "string list \<Rightarrow> run_outcome"

text \<open>The body of the \<open>try\<close> block of \<open>execute_applescript\<close>.\<close>

definition execute_applescript_try :: "runner \<Rightarrow> string \<Rightarrow> py_exn + string" where
  \<open>execute_applescript_try run script =
     (let escaped_script = py_replace1 (CHR 0x27) ([CHR 0x27] @ ''"'' @ [CHR 0x27] @ ''"'' @ [CHR 0x27]) script
      in case run [''osascript'', ''-e'', script] of
           Raises e \<Rightarrow> Inl e
         | CompletedProcess returncode out err \<Rightarrow>
             if returncode \<noteq> 0 then Inl (Exception (''AppleScript error: '' @ err))
             else Inr (strip out))\<close>

text \<open>
  The two \<open>except\<close> clauses: \<open>TimeoutExpired\<close> first, then every other \<open>Exception\<close>,
  the one raised for a non-zero return code included.
\<close>

definition execute_applescript :: "runner \<Rightarrow> string \<Rightarrow> py_exn + string" where
  "execute_applescript run script =
     (case execute_applescript_try run script of
        Inr out \<Rightarrow> Inr out
      | Inl TimeoutExpired \<Rightarrow> Inl (Exception ''AppleScript execution timed out'')
      | Inl e \<Rightarrow> Inl (Exception (''Failed to execute AppleScript: '' @ str_exn e)))"

text \<open>
  The same function with the calls of \<open>subprocess.run\<close> written down: \<open>calls\<close> is the
  list of the argument vectors the operating system has been asked to run so far, and
  \<open>subprocess_run\<close> adds the vector it is given. \<open>execute_applescript_logged\<close> is the
  body of \<open>execute_applescript\<close>, statement by statement, over that state.
\<close>

definition subprocess_run ::
  "runner \<Rightarrow> string list \<Rightarrow> string list list \<Rightarrow> run_outcome \<times> string list list" where
  "subprocess_run run argv calls = (run argv, calls @ [argv])"

definition execute_applescript_logged ::
  "runner \<Rightarrow> string \<Rightarrow> string list list \<Rightarrow> (py_exn + string) \<times> string list list" where
  \<open>execute_applescript_logged run script calls =
     (let escaped_script = py_replace1 (CHR 0x27) ([CHR 0x27] @ ''"'' @ [CHR 0x27] @ ''"'' @ [CHR 0x27]) script;
          (result, calls) = subprocess_run run [''osascript'', ''-e'', script] calls;
          tried =
            (case result of
               Raises e \<Rightarrow> Inl e
             | CompletedProcess returncode out err \<Rightarrow>
                 if returncode \<noteq> 0 then Inl (Exception (''AppleScript error: '' @ err))
                 else Inr (strip out))
      in (case tried of
            Inr out \<Rightarrow> Inr out
          | Inl TimeoutExpired \<Rightarrow> Inl (Exception ''AppleScript execution timed out'')
          | Inl e \<Rightarrow> Inl (Exception (''Failed to execute AppleScript: '' @ str_exn e)),
          calls))\<close>

section \<open>The script builder, the invoker calls and the response parser\<close>

text \<open>
  \<open>if v:\<close> on an optional string or list: \<open>None\<close> and the empty value are false.
  \<open>if_set v f\<close> is the text \<open>f\<close> renders when \<open>v\<close> is set, and nothing otherwise.
\<close>

definition truthy :: "'a list option \<Rightarrow> bool" where
  "truthy v = (case v of None \<Rightarrow> False | Some x \<Rightarrow> x \<noteq> [])"

definition if_set :: "'a list option \<Rightarrow> ('a list \<Rightarrow> 'b list) \<Rightarrow> 'b list" where
  "if_set v f = (case v of None \<Rightarrow> [] | Some x \<Rightarrow> if x \<noteq> [] then f x else [])"

definition then_do :: "py_exn + 'a \<Rightarrow> ('a \<Rightarrow> py_exn + 'b) \<Rightarrow> py_exn + 'b" where
  "then_do m f = (case m of Inl e \<Rightarrow> Inl e | Inr x \<Rightarrow> f x)"

text \<open>\<open>xs[i]\<close> raises \<open>IndexError\<close> out of range.\<close>

definition item :: "'a list \<Rightarrow> nat \<Rightarrow> py_exn + 'a" where
  "item xs i = (if i < length xs then Inr (xs ! i) else Inl IndexError)"

definition newline :: string where
  "newline = [CHR 0x0A]"

subsection \<open>\<open>add_task\<close>\<close>

definition add_task_script ::
  "string \<Rightarrow> string \<Rightarrow> string option \<Rightarrow> string option \<Rightarrow> string option
     \<Rightarrow> string list option \<Rightarrow> string" where
  \<open>add_task_script title notes due_date area project tags =
     py_join newline
       ([''tell application "Things3"'',
         ''    set newToDo to make new to do with properties {name:"'' @ title @ ''"''
           @ (if notes \<noteq> [] then '', notes:"'' @ notes @ ''"'' else [])
           @ if_set due_date (\<lambda>due_date. '', due date:date("'' @ due_date @ ''")'')
           @ if_set area (\<lambda>area. '', area:"'' @ area @ ''"'')
           @ if_set project (\<lambda>project. '', project:"'' @ project @ ''"'')
           @ ''}'']
        @ if_set tags (\<lambda>tags.
            [''    repeat with tagName in {"'' @ py_join ''", "'' tags @ ''"}'',
             ''        set tag of newToDo to tagName'',
             ''    end repeat''])
        @ [''    return id of newToDo'',
           ''end tell''])\<close>

definition add_task ::
  "runner \<Rightarrow> string \<Rightarrow> string \<Rightarrow> string option \<Rightarrow> string option \<Rightarrow> string option
     \<Rightarrow> string list option \<Rightarrow> py_exn + string" where
  "add_task run title notes due_date area project tags =
     execute_applescript run (add_task_script title notes due_date area project tags)"

subsection \<open>\<open>list_tasks\<close>\<close>

definition list_mapping :: "(string \<times> string) list" where
  \<open>list_mapping =
     [(''today'', ''list "Today"''),
      (''upcoming'', ''list "Upcoming"''),
      (''anytime'', ''list "Anytime"''),
      (''someday'', ''list "Someday"''),
      (''inbox'', ''list "Inbox"''),
      (''completed'', ''list "Logbook"'')]\<close>

text \<open>\<open>list_mapping.get(list_name.lower(), 'list "Today"')\<close>.\<close>

definition things_list_of :: "string \<Rightarrow> string" where
  \<open>things_list_of list_name =
     (case map_of list_mapping (lower list_name) of
        Some v \<Rightarrow> v
      | None \<Rightarrow> ''list "Today"'')\<close>

definition list_tasks_script :: "string \<Rightarrow> int \<Rightarrow> string" where
  \<open>list_tasks_script list_name limit =
     (let things_list = things_list_of list_name in
      py_join newline
     ['''',
      ''        tell application "Things3"'',
      ''            set taskList to {}'',
      ''            set todoList to to dos of '' @ things_list,
      ''            repeat with i from 1 to (count of todoList)'',
      ''                if i > '' @ str_int limit @ '' then exit repeat'',
      ''                set thisToDo to item i of todoList'',
      ''                set taskInfo to (name of thisToDo) & "|||" & (id of thisToDo) & "|||" & '' @ [CHR 0xC3, CHR 0x82, CHR 0xC2, CHR 0xAC],
      ''                    (notes of thisToDo) & "|||" & (due date of thisToDo) & "|||" & '' @ [CHR 0xC3, CHR 0x82, CHR 0xC2, CHR 0xAC],
      ''                    (creation date of thisToDo) & "|||" & (status of thisToDo)'',
      ''                set end of taskList to taskInfo'',
      ''            end repeat'',
      ''            return taskList as string'',
      ''        end tell'',
      ''        ''])\<close>

record task_info =
  task_title :: string
  task_id :: string
  task_notes :: string
  task_due_date :: "string option"
  task_creation_date :: "string option"
  task_status :: string

text \<open>The dictionary built from the fields of one line; every \<open>parts[i]\<close> may raise.\<close>

definition list_tasks_record :: "string list \<Rightarrow> py_exn + task_info" where
  "list_tasks_record parts =
     then_do (item parts 0) (\<lambda>p0.
     then_do (item parts 1) (\<lambda>p1.
     then_do (item parts 2) (\<lambda>p2.
     then_do (item parts 3) (\<lambda>p3.
     then_do (item parts 4) (\<lambda>p4.
     then_do (item parts 5) (\<lambda>p5.
       Inr \<lparr> task_title = strip p0,
             task_id = strip p1,
             task_notes = (if strip p2 \<noteq> ''missing value'' then strip p2 else []),
             task_due_date = (if strip p3 \<noteq> ''missing value'' then Some (strip p3) else None),
             task_creation_date = (if strip p4 \<noteq> ''missing value'' then Some (strip p4) else None),
             task_status = strip p5 \<rparr>))))))"

fun list_tasks_loop :: "string list \<Rightarrow> task_info list \<Rightarrow> py_exn + task_info list" where
  "list_tasks_loop [] tasks = Inr tasks"
| "list_tasks_loop (task_line # rest) tasks =
     (if sublist ''|||'' task_line then
        (let parts = py_split ''|||'' task_line in
         if length parts \<ge> 6 then
           then_do (list_tasks_record parts) (\<lambda>d. list_tasks_loop rest (tasks @ [d]))
         else list_tasks_loop rest tasks)
      else list_tasks_loop rest tasks)"

definition list_tasks_parse :: "string \<Rightarrow> py_exn + task_info list" where
  "list_tasks_parse result =
     (if result = [] then Inr [] else list_tasks_loop (py_split '','' result) [])"

definition list_tasks :: "runner \<Rightarrow> string \<Rightarrow> int \<Rightarrow> py_exn + task_info list" where
  "list_tasks run list_name limit =
     then_do (execute_applescript run (list_tasks_script list_name limit)) list_tasks_parse"

subsection \<open>\<open>complete_task\<close>\<close>

definition complete_task_script :: "string \<Rightarrow> string" where
  \<open>complete_task_script task_identifier =
     py_join newline
     ['''',
      ''        tell application "Things3"'',
      ''            try'',
      ''                set completedToDo to to do id "'' @ task_identifier @ ''"'',
      ''                set status of completedToDo to completed'',
      ''                return "Task completed successfully (found by ID)"'',
      ''            on error'',
      ''                try'',
      ''                    set completedToDo to to do "'' @ task_identifier @ ''"'',
      ''                    set status of completedToDo to completed'',
      ''                    return "Task completed successfully (found by title)"'',
      ''                on error'',
      ''                    return "Task not found: '' @ task_identifier @ ''"'',
      ''                end try'',
      ''            end try'',
      ''        end tell'',
      ''        '']\<close>

definition complete_task :: "runner \<Rightarrow> string \<Rightarrow> py_exn + string" where
  "complete_task run task_identifier =
     execute_applescript run (complete_task_script task_identifier)"

subsection \<open>\<open>search_tasks\<close> and \<open>list_projects\<close>\<close>

definition search_tasks_script :: "string \<Rightarrow> int \<Rightarrow> string" where
  \<open>search_tasks_script query limit =
     py_join newline
     ['''',
      ''        tell application "Things3"'',
      ''            set searchResults to {}'',
      ''            set allToDos to to dos'',
      ''            repeat with thisToDo in allToDos'',
      ''                if (name of thisToDo) contains "'' @ query @ ''" or (notes of thisToDo) contains "'' @ query @ ''" then'',
      ''                    set taskInfo to (name of thisToDo) & "|||" & (id of thisToDo) & "|||" & (status of thisToDo)'',
      ''                    set end of searchResults to taskInfo'',
      ''                    if (count of searchResults) '' @ [CHR 0xC3, CHR 0xA2, CHR 0xE2, CHR 0x80, CHR 0xB0, CHR 0xC2, CHR 0xA5] @ '' '' @ str_int limit @ '' then exit repeat'',
      ''                end if'',
      ''            end repeat'',
      ''            return searchResults as string'',
      ''        end tell'',
      ''        '']\<close>

record entry_info =
  entry_title :: string
  entry_id :: string
  entry_status :: string

definition entry_record :: "string list \<Rightarrow> py_exn + entry_info" where
  "entry_record parts =
     then_do (item parts 0) (\<lambda>p0.
     then_do (item parts 1) (\<lambda>p1.
     then_do (item parts 2) (\<lambda>p2.
       Inr \<lparr> entry_title = strip p0, entry_id = strip p1, entry_status = strip p2 \<rparr>)))"

text \<open>
  The loops of \<open>search_tasks\<close> and of \<open>list_projects\<close> are the same statements on
  differently named variables; one function models both.
\<close>

fun entries_loop :: "string list \<Rightarrow> entry_info list \<Rightarrow> py_exn + entry_info list" where
  "entries_loop [] tasks = Inr tasks"
| "entries_loop (task_line # rest) tasks =
     (if sublist ''|||'' task_line then
        (let parts = py_split ''|||'' task_line in
         if length parts \<ge> 3 then
           then_do (entry_record parts) (\<lambda>d. entries_loop rest (tasks @ [d]))
         else entries_loop rest tasks)
      else entries_loop rest tasks)"

definition search_tasks_parse :: "string \<Rightarrow> py_exn + entry_info list" where
  "search_tasks_parse result =
     (if result = [] then Inr [] else entries_loop (py_split '','' result) [])"

definition search_tasks :: "runner \<Rightarrow> string \<Rightarrow> int \<Rightarrow> py_exn + entry_info list" where
  "search_tasks run query limit =
     then_do (execute_applescript run (search_tasks_script query limit)) search_tasks_parse"

definition list_projects_script :: "string \<Rightarrow> string" where
  \<open>list_projects_script status =
     (let status_filter =
            (if status = ''open'' then ''whose status is open''
             else if status = ''completed'' then ''whose status is completed''
             else [])
      in py_join newline
     ['''',
      ''        tell application "Things3"'',
      ''            set projectList to {}'',
      ''            set allProjects to projects '' @ status_filter,
      ''            repeat with thisProject in allProjects'',
      ''                set projectInfo to (name of thisProject) & "|||" & (id of thisProject) & "|||" & (status of thisProject)'',
      ''                set end of projectList to projectInfo'',
      ''            end repeat'',
      ''            return projectList as string'',
      ''        end tell'',
      ''        ''])\<close>

definition list_projects_parse :: "string \<Rightarrow> py_exn + entry_info list" where
  "list_projects_parse result =
     (if result = [] then Inr [] else entries_loop (py_split '','' result) [])"

definition list_projects :: "runner \<Rightarrow> string \<Rightarrow> py_exn + entry_info list" where
  "list_projects run status =
     then_do (execute_applescript run (list_projects_script status)) list_projects_parse"

subsection \<open>\<open>add_project\<close>, \<open>get_daily_overview\<close> and \<open>update_task\<close>\<close>

definition add_project_script ::
  "string \<Rightarrow> string \<Rightarrow> string option \<Rightarrow> string \<Rightarrow> string" where
  \<open>add_project_script title notes area when =
     py_join newline
       ([''tell application "Things3"'',
         ''    set newProject to make new project with properties {name:"'' @ title @ ''"''
           @ (if notes \<noteq> [] then '', notes:"'' @ notes @ ''"'' else [])
           @ if_set area (\<lambda>area. '', area:"'' @ area @ ''"'')
           @ ''}'']
        @ (if when = ''today'' then [''    set start date of newProject to current date''] else [])
        @ [''    return id of newProject'',
           ''end tell''])\<close>

definition add_project ::
  "runner \<Rightarrow> string \<Rightarrow> string \<Rightarrow> string option \<Rightarrow> string \<Rightarrow> py_exn + string" where
  "add_project run title notes area when =
     execute_applescript run (add_project_script title notes area when)"

definition get_daily_overview_script :: string where
  \<open>get_daily_overview_script =
     py_join newline
     ['''',
      ''        tell application "Things3"'',
      ''            set overview to ""'',
      ''            '',
      ''            -- Today'' @ [CHR 0x27] @ ''s tasks'',
      ''            set todayTasks to to dos of list "Today"'',
      ''            set overview to overview & "'' @ [CHR 0xC3, CHR 0xB0, CHR 0xC5, CHR 0xB8, CHR 0xE2, CHR 0x80, CHR 0x9C, CHR 0xE2, CHR 0x80, CHR 0xA6] @ '' TODAY (" & (count of todayTasks) & " tasks):" & return'',
      ''            repeat with thisToDo in todayTasks'',
      ''                set overview to overview & "'' @ [CHR 0xC3, CHR 0xA2, CHR 0xE2, CHR 0x82, CHR 0xAC, CHR 0xC2, CHR 0xA2] @ '' " & (name of thisToDo)'',
      ''                if (due date of thisToDo) is not missing value then'',
      ''                    set overview to overview & " (Due: " & (due date of thisToDo) & ")"'',
      ''                end if'',
      ''                set overview to overview & return'',
      ''            end repeat'',
      ''            '',
      ''            -- Upcoming tasks'',
      ''            set upcomingTasks to to dos of list "Upcoming"'',
      ''            set overview to overview & return & "'' @ [CHR 0xC3, CHR 0xA2, CHR 0xC2, CHR 0xB0] @ '' UPCOMING (" & (count of upcomingTasks) & " tasks):" & return'',
      ''            repeat with thisToDo in upcomingTasks'',
      ''                set overview to overview & "'' @ [CHR 0xC3, CHR 0xA2, CHR 0xE2, CHR 0x82, CHR 0xAC, CHR 0xC2, CHR 0xA2] @ '' " & (name of thisToDo)'',
      ''                if (due date of thisToDo) is not missing value then'',
      ''                    set overview to overview & " (Due: " & (due date of thisToDo) & ")"'',
      ''                end if'',
      ''                set overview to overview & return'',
      ''            end repeat'',
      ''            '',
      ''            -- Active projects'',
      ''            set openProjects to projects whose status is open'',
      ''            set overview to overview & return & "'' @ [CHR 0xC3, CHR 0xB0, CHR 0xC5, CHR 0xB8, CHR 0xE2, CHR 0x80, CHR 0x9C] @ '' ACTIVE PROJECTS (" & (count of openProjects) & "):" & return'',
      ''            repeat with thisProject in openProjects'',
      ''                set projectTasks to to dos of thisProject whose status is open'',
      ''                set overview to overview & "'' @ [CHR 0xC3, CHR 0xA2, CHR 0xE2, CHR 0x82, CHR 0xAC, CHR 0xC2, CHR 0xA2] @ '' " & (name of thisProject) & " (" & (count of projectTasks) & " tasks)" & return'',
      ''            end repeat'',
      ''            '',
      ''            return overview'',
      ''        end tell'',
      ''        '']\<close>

definition get_daily_overview :: "runner \<Rightarrow> py_exn + string" where
  "get_daily_overview run = execute_applescript run get_daily_overview_script"

definition update_task_script ::
  "string \<Rightarrow> string option \<Rightarrow> string option \<Rightarrow> string option \<Rightarrow> string list option
     \<Rightarrow> string" where
  \<open>update_task_script task_identifier title notes due_date tags =
     py_join newline
       ([''tell application "Things3"'',
         ''    try'',
         ''        set targetToDo to to do id "'' @ task_identifier @ ''"'',
         ''    on error'',
         ''        try'',
         ''            set targetToDo to to do "'' @ task_identifier @ ''"'',
         ''        on error'',
         ''            return "Task not found"'',
         ''        end try'',
         ''    end try'',
         ''    '',
         ''    set updateResult to ""'']
        @ if_set title (\<lambda>title.
            [''    set name of targetToDo to "'' @ title @ ''"'',
             ''    set updateResult to updateResult & "Title updated. "''])
        @ if_set notes (\<lambda>notes.
            [''    set notes of targetToDo to "'' @ notes @ ''"'',
             ''    set updateResult to updateResult & "Notes updated. "''])
        @ if_set due_date (\<lambda>due_date.
            [''    set due date of targetToDo to date("'' @ due_date @ ''")'',
             ''    set updateResult to updateResult & "Due date updated. "''])
        @ [''    return updateResult'',
           ''end tell''])\<close>

definition update_task ::
  "runner \<Rightarrow> string \<Rightarrow> string option \<Rightarrow> string option \<Rightarrow> string option
     \<Rightarrow> string list option \<Rightarrow> py_exn + string" where
  "update_task run task_identifier title notes due_date tags =
     execute_applescript run (update_task_script task_identifier title notes due_date tags)"

section \<open>The operation dispatcher\<close>

text \<open>
  The argument bundle is a dictionary; the model keeps the keys the handler reads, each
  at the type its schema declares, \<open>None\<close> when the key is absent.
\<close>

record arguments =
  arg_title :: "string option"
  arg_notes :: "string option"
  arg_due_date :: "string option"
  arg_area :: "string option"
  arg_project :: "string option"
  arg_tags :: "string list option"
  arg_list :: "string option"
  arg_limit :: "int option"
  arg_task_id :: "string option"
  arg_query :: "string option"
  arg_status :: "string option"
  arg_when :: "string option"

definition no_arguments :: arguments where
  "no_arguments =
     \<lparr> arg_title = None, arg_notes = None, arg_due_date = None, arg_area = None,
       arg_project = None, arg_tags = None, arg_list = None, arg_limit = None,
       arg_task_id = None, arg_query = None, arg_status = None, arg_when = None \<rparr>"

text \<open>\<open>arguments[key]\<close> and \<open>arguments.get(key, default)\<close>.\<close>

definition required :: "string \<Rightarrow> 'a option \<Rightarrow> py_exn + 'a" where
  "required key v = (case v of None \<Rightarrow> Inl (KeyError key) | Some x \<Rightarrow> Inr x)"

definition get_or :: "'a option \<Rightarrow> 'a \<Rightarrow> 'a" where
  "get_or v d = (case v of None \<Rightarrow> d | Some x \<Rightarrow> x)"

definition bullet :: string where
  \<open>bullet = [CHR 0xC3, CHR 0xA2, CHR 0xE2, CHR 0x82, CHR 0xAC, CHR 0xC2, CHR 0xA2] @ '' ''\<close>

definition quote :: string where
  "quote = [CHR 0x27]"

definition format_task :: "string \<Rightarrow> task_info \<Rightarrow> string" where
  \<open>format_task result task =
     result @ bullet @ task_title task
       @ if_set (task_due_date task) (\<lambda>due_date. '' (Due: '' @ due_date @ '')'')
       @ (if task_notes task \<noteq> [] then newline @ ''  Notes: '' @ task_notes task else [])
       @ newline\<close>

definition format_found_task :: "string \<Rightarrow> entry_info \<Rightarrow> string" where
  \<open>format_found_task result task =
     result @ bullet @ entry_title task @ '' ('' @ entry_status task @ '')'' @ newline\<close>

definition format_project :: "string \<Rightarrow> entry_info \<Rightarrow> string" where
  \<open>format_project result project = result @ bullet @ entry_title project @ newline\<close>

text \<open>
  The operations the handler knows, and the key each reads with \<open>arguments[key]\<close>
  (the \<open>required\<close> list of its schema); the other keys are read with \<open>get\<close>.
\<close>

definition tool_names :: "string list" where
  "tool_names =
     [''add_task'', ''list_tasks'', ''complete_task'', ''search_tasks'', ''list_projects'',
      ''add_project'', ''get_daily_overview'', ''update_task'']"

definition required_key :: "string \<Rightarrow> (string \<times> (arguments \<Rightarrow> string option)) option" where
  "required_key name =
     (if name = ''add_task'' \<or> name = ''add_project'' then Some (''title'', arg_title)
      else if name = ''complete_task'' \<or> name = ''update_task'' then Some (''task_id'', arg_task_id)
      else if name = ''search_tasks'' then Some (''query'', arg_query)
      else None)"

definition given_arguments :: "arguments option \<Rightarrow> arguments" where
  "given_arguments arguments = (case arguments of None \<Rightarrow> no_arguments | Some a \<Rightarrow> a)"

text \<open>The body of the \<open>try\<close> block of \<open>handle_call_tool\<close>.\<close>

definition handle_call_tool_try :: "runner \<Rightarrow> string \<Rightarrow> arguments \<Rightarrow> py_exn + string list" where
  \<open>handle_call_tool_try run name arguments =
     (if name = ''add_task'' then
        then_do (required ''title'' (arg_title arguments)) (\<lambda>title.
        then_do (add_task run title (get_or (arg_notes arguments) []) (arg_due_date arguments)
                   (arg_area arguments) (arg_project arguments)
                   (Some (get_or (arg_tags arguments) []))) (\<lambda>task_id.
          Inr [''Task '' @ quote @ title @ quote @ '' added successfully with ID: '' @ task_id]))
      else if name = ''list_tasks'' then
        then_do (list_tasks run (get_or (arg_list arguments) ''today'')
                   (get_or (arg_limit arguments) 20)) (\<lambda>tasks.
          if tasks = [] then
            Inr [''No tasks found in '' @ get_or (arg_list arguments) ''today'' @ '' list'']
          else
            Inr [foldl format_task
                   (''Found '' @ str_nat (length tasks) @ '' tasks in ''
                      @ get_or (arg_list arguments) ''today'' @ '':'' @ newline @ newline)
                   tasks])
      else if name = ''complete_task'' then
        then_do (required ''task_id'' (arg_task_id arguments)) (\<lambda>task_id.
        then_do (complete_task run task_id) (\<lambda>result. Inr [result]))
      else if name = ''search_tasks'' then
        then_do (required ''query'' (arg_query arguments)) (\<lambda>query.
        then_do (search_tasks run query (get_or (arg_limit arguments) 10)) (\<lambda>tasks.
          if tasks = [] then
            Inr [''No tasks found matching '' @ quote @ query @ quote]
          else
            Inr [foldl format_found_task
                   (''Found '' @ str_nat (length tasks) @ '' tasks matching ''
                      @ quote @ query @ quote @ '':'' @ newline @ newline)
                   tasks]))
      else if name = ''list_projects'' then
        then_do (list_projects run (get_or (arg_status arguments) ''open'')) (\<lambda>projects.
          if projects = [] then
            Inr [''No '' @ get_or (arg_status arguments) ''open'' @ '' projects found'']
          else
            Inr [foldl format_project
                   (''Found '' @ str_nat (length projects) @ '' ''
                      @ get_or (arg_status arguments) ''open'' @ '' projects:'' @ newline @ newline)
                   projects])
      else if name = ''add_project'' then
        then_do (required ''title'' (arg_title arguments)) (\<lambda>title.
        then_do (add_project run title (get_or (arg_notes arguments) []) (arg_area arguments)
                   (get_or (arg_when arguments) ''someday'')) (\<lambda>project_id.
          Inr [''Project '' @ quote @ title @ quote @ '' created successfully with ID: ''
                 @ project_id]))
      else if name = ''get_daily_overview'' then
        then_do (get_daily_overview run) (\<lambda>overview. Inr [overview])
      else if name = ''update_task'' then
        then_do (required ''task_id'' (arg_task_id arguments)) (\<lambda>task_id.
        then_do (update_task run task_id (arg_title arguments) (arg_notes arguments)
                   (arg_due_date arguments) (arg_tags arguments)) (\<lambda>result.
          Inr [if result \<noteq> [] then result else ''Task updated successfully'']))
      else Inl (ValueError (''Unknown tool: '' @ name)))\<close>

text \<open>\<open>handle_call_tool\<close>: the list of the text contents it returns.\<close>

definition handle_call_tool :: "runner \<Rightarrow> string \<Rightarrow> arguments option \<Rightarrow> string list" where
  \<open>handle_call_tool run name arguments =
     (let arguments = given_arguments arguments in
      case handle_call_tool_try run name arguments of
        Inr contents \<Rightarrow> contents
      | Inl e \<Rightarrow> [''Error executing '' @ name @ '': '' @ str_exn e])\<close>

section \<open>String literals of the scripting language\<close>

text \<open>
  AppleScript's string literals, the grammar that reads the rendered text back: a
  literal starts at a quote character and ends at the next quote that no backslash
  precedes; inside, a backslash takes the next character with it (\<open>\"\<close> is a quote,
  \<open>\\\<close> a backslash, \<open>\n\<close>, \<open>\r\<close> and \<open>\t\<close> the control characters) and any other
  escape is an error. \<open>read_chars\<close> reads the rest of a literal after its opening
  quote and gives its value and the text after the closing quote; \<open>string_literals\<close>
  gives the values of all literals of a script, in order, or \<open>None\<close> when a literal is
  malformed or not closed. The scripts of \<open>add_task\<close>, \<open>add_project\<close>,
  \<open>complete_task\<close> and \<open>update_task\<close> have no comments, so every quote outside a
  literal opens one.
\<close>

definition dq :: char where
  "dq = CHR 0x22"

definition backslash :: char where
  "backslash = CHR 0x5C"

definition unescape :: "char \<Rightarrow> char option" where
  "unescape c =
     (if c = dq then Some dq
      else if c = backslash then Some backslash
      else if c = CHR ''n'' then Some (CHR 0x0A)
      else if c = CHR ''r'' then Some (CHR 0x0D)
      else if c = CHR ''t'' then Some (CHR 0x09)
      else None)"

fun read_chars :: "string \<Rightarrow> (string \<times> string) option" where
  "read_chars [] = None"
| "read_chars [c] = (if c = dq then Some ([], []) else None)"
| "read_chars (c # d # s) =
     (if c = dq then Some ([], d # s)
      else if c = backslash then
        (case unescape d of
           None \<Rightarrow> None
         | Some e \<Rightarrow> map_option (\<lambda>(v, rest). (e # v, rest)) (read_chars s))
      else map_option (\<lambda>(v, rest). (c # v, rest)) (read_chars (d # s)))"

function string_literals :: "string \<Rightarrow> string list option" where
  "string_literals [] = Some []"
| "string_literals (c # s) =
     (if c = dq then
        (case read_chars s of
           None \<Rightarrow> None
         | Some (v, rest) \<Rightarrow> map_option ((#) v) (string_literals rest))
      else string_literals s)"
  by pat_completeness auto
termination
proof (relation "measure length")
  have shorter: "length rest \<le> length s" if "read_chars s = Some (v, rest)" for s v rest
    using that
    by (induction s arbitrary: v rest rule: read_chars.induct)
       (fastforce split: if_splits option.splits)+
  show "wf (measure length)" by simp
  show "(rest, c # s) \<in> measure length"
    if "c = dq" "read_chars s = Some x" "(v, rest) = x" for c s x v rest
    using shorter [of s v rest] that by simp
  show "(s, c # s) \<in> measure length" if "c \<noteq> dq" for c s
    by simp
qed

text \<open>A string with neither a quote nor a backslash: what a literal can hold unescaped.\<close>

definition plain :: "string \<Rightarrow> bool" where
  "plain s = (dq \<notin> set s \<and> backslash \<notin> set s)"

text \<open>
  The text of a script outside its literals: \<open>skeleton\<close> replaces every literal by the
  empty one and keeps every other character, so two scripts with the same skeleton
  are the same statements over different strings. It is \<open>None\<close> where
  \<open>string_literals\<close> is.
\<close>

function skeleton :: "string \<Rightarrow> string option" where
  "skeleton [] = Some []"
| "skeleton (c # s) =
     (if c = dq then
        (case read_chars s of
           None \<Rightarrow> None
         | Some (v, rest) \<Rightarrow> map_option (\<lambda>k. dq # dq # k) (skeleton rest))
      else map_option ((#) c) (skeleton s))"
  by pat_completeness auto
termination
proof (relation "measure length")
  have shorter: "length rest \<le> length s" if "read_chars s = Some (v, rest)" for s v rest
    using that
    by (induction s arbitrary: v rest rule: read_chars.induct)
       (fastforce split: if_splits option.splits)+
  show "wf (measure length)" by simp
  show "(rest, c # s) \<in> measure length"
    if "c = dq" "read_chars s = Some x" "(v, rest) = x" for c s x v rest
    using shorter [of s v rest] that by simp
  show "(s, c # s) \<in> measure length" if "c \<noteq> dq" for c s
    by simp
qed

section \<open>The rendered scripts, read as AppleScript\<close>

text \<open>
  The scripts are source text of the repository too: the lookup order and the
  not-found outcome are what those scripts do when they run. What runs is the
  rendered text, so the models below take the text. They read it with the grammar of
  literals: a text with a malformed or open literal is no script (\<open>ScriptError\<close>); a
  text whose skeleton is the skeleton of the template is the template's statements
  over the literals read back, and its control flow is translated statement by
  statement; any other text is a script that this development does not interpret
  (\<open>OtherScript\<close>). The application's objects are parameters: \<open>to_do_id\<close> and
  \<open>to_do_named\<close> are the references \<open>to do id "..."\<close> and \<open>to do "..."\<close> (\<open>None\<close> when
  the reference raises an error), and a setter says whether the assignment went
  through.
\<close>

datatype script_result = Returned string | ScriptError | OtherScript

text \<open>The template of \<open>complete_task\<close> (l.172-186) with every literal emptied.\<close>

definition complete_task_skeleton :: string where
  \<open>complete_task_skeleton =
     py_join newline
     ['''',
      ''        tell application ""'',
      ''            try'',
      ''                set completedToDo to to do id ""'',
      ''                set status of completedToDo to completed'',
      ''                return ""'',
      ''            on error'',
      ''                try'',
      ''                    set completedToDo to to do ""'',
      ''                    set status of completedToDo to completed'',
      ''                    return ""'',
      ''                on error'',
      ''                    return ""'',
      ''                end try'',
      ''            end try'',
      ''        end tell'',
      ''        '']\<close>

text \<open>
  \<open>complete_task\<close>: the six literals are, in the order of the text, the application,
  the operand of \<open>to do id\<close>, the text returned after it, the operand of \<open>to do\<close>, the
  text returned after it, and the text returned by the last handler. A statement that
  fails inside \<open>try\<close> passes control to \<open>on error\<close>; the inner \<open>try\<close> is the handler of
  the outer one.
\<close>

definition complete_task_applescript ::
  "(string \<Rightarrow> 'a option) \<Rightarrow> (string \<Rightarrow> 'a option) \<Rightarrow> ('a \<Rightarrow> bool) \<Rightarrow> string \<Rightarrow> script_result" where
  \<open>complete_task_applescript to_do_id to_do_named set_completed script =
     (case string_literals script of
        None \<Rightarrow> ScriptError
      | Some literals \<Rightarrow>
          if skeleton script = Some complete_task_skeleton then
            (case literals of
               [application, by_id, found_by_id, by_title, found_by_title, not_found] \<Rightarrow>
                 (let on_error =
                    (case to_do_named by_title of
                       Some completedToDo \<Rightarrow>
                         if set_completed completedToDo then Returned found_by_title
                         else Returned not_found
                     | None \<Rightarrow> Returned not_found)
                  in case to_do_id by_id of
                       Some completedToDo \<Rightarrow>
                         if set_completed completedToDo then Returned found_by_id
                         else on_error
                     | None \<Rightarrow> on_error)
             | _ \<Rightarrow> OtherScript)
          else OtherScript)\<close>

text \<open>
  \<open>update_task\<close>: the statements after the lookup, as rendered for the fields that are
  set. Each is an assignment followed by the text appended to \<open>updateResult\<close>; they stand
  outside every \<open>try\<close>, so a failing assignment ends the script with an error.
\<close>

fun update_steps :: "'a \<Rightarrow> (('a \<Rightarrow> bool) \<times> string) list \<Rightarrow> string \<Rightarrow> script_result" where
  "update_steps targetToDo [] updateResult = Returned updateResult"
| "update_steps targetToDo ((assign, message) # steps) updateResult =
     (if assign targetToDo then update_steps targetToDo steps (updateResult @ message)
      else ScriptError)"

text \<open>
  The template of \<open>update_task\<close> (l.339-375) with every literal emptied; the flags say
  which of the three optional pairs of lines are there.
\<close>

definition update_task_skeleton :: "bool \<Rightarrow> bool \<Rightarrow> bool \<Rightarrow> string" where
  \<open>update_task_skeleton with_title with_notes with_due_date =
     py_join newline
       ([''tell application ""'',
         ''    try'',
         ''        set targetToDo to to do id ""'',
         ''    on error'',
         ''        try'',
         ''            set targetToDo to to do ""'',
         ''        on error'',
         ''            return ""'',
         ''        end try'',
         ''    end try'',
         ''    '',
         ''    set updateResult to ""'']
        @ (if with_title then
            [''    set name of targetToDo to ""'',
             ''    set updateResult to updateResult & ""'']
           else [])
        @ (if with_notes then
            [''    set notes of targetToDo to ""'',
             ''    set updateResult to updateResult & ""'']
           else [])
        @ (if with_due_date then
            [''    set due date of targetToDo to date("")'',
             ''    set updateResult to updateResult & ""'']
           else [])
        @ [''    return updateResult'',
           ''end tell''])\<close>

definition update_task_shapes :: "(bool \<times> bool \<times> bool) list" where
  "update_task_shapes =
     [(False, False, False), (False, False, True), (False, True, False), (False, True, True),
      (True, False, False), (True, False, True), (True, True, False), (True, True, True)]"

text \<open>
  The literals of the optional lines come in pairs: the operand of the assignment and
  the text appended after it.
\<close>

fun pair_steps ::
  "(string \<Rightarrow> 'a \<Rightarrow> bool) list \<Rightarrow> string list \<Rightarrow> (('a \<Rightarrow> bool) \<times> string) list" where
  "pair_steps (assign # setters) (operand # message # literals) =
     (assign operand, message) # pair_steps setters literals"
| "pair_steps setters literals = []"

text \<open>
  \<open>update_task\<close>: the first five literals are the application, the operands of
  \<open>to do id\<close> and \<open>to do\<close>, the text returned by the last handler and the first value of
  \<open>updateResult\<close>.
\<close>

definition update_task_applescript ::
  "(string \<Rightarrow> 'a option) \<Rightarrow> (string \<Rightarrow> 'a option)
     \<Rightarrow> (string \<Rightarrow> 'a \<Rightarrow> bool) \<Rightarrow> (string \<Rightarrow> 'a \<Rightarrow> bool) \<Rightarrow> (string \<Rightarrow> 'a \<Rightarrow> bool)
     \<Rightarrow> string \<Rightarrow> script_result" where
  \<open>update_task_applescript to_do_id to_do_named set_name set_notes set_due_date script =
     (case string_literals script of
        None \<Rightarrow> ScriptError
      | Some literals \<Rightarrow>
          (case find (\<lambda>(with_title, with_notes, with_due_date).
                        skeleton script
                        = Some (update_task_skeleton with_title with_notes with_due_date))
                  update_task_shapes of
             None \<Rightarrow> OtherScript
           | Some (with_title, with_notes, with_due_date) \<Rightarrow>
               (case literals of
                  application # by_id # by_title # not_found # initial # literals \<Rightarrow>
                    (let steps =
                       pair_steps
                         ((if with_title then [set_name] else [])
                          @ (if with_notes then [set_notes] else [])
                          @ (if with_due_date then [set_due_date] else []))
                         literals
                     in case to_do_id by_id of
                          Some targetToDo \<Rightarrow> update_steps targetToDo steps initial
                        | None \<Rightarrow>
                            (case to_do_named by_title of
                               Some targetToDo \<Rightarrow> update_steps targetToDo steps initial
                             | None \<Rightarrow> Returned not_found))
                | _ \<Rightarrow> OtherScript)))\<close>

section \<open>Optional fields and their clauses\<close>

text \<open>
  The optional fields of \<open>add_task\<close> and \<open>add_project\<close>, and the keyword each clause of
  the builder starts with: the property label of the record, and for the tags the
  \<open>tag\<close> of the loop that assigns them.
\<close>

datatype field = Notes | DueDate | Area | Project | Tags

fun keyword :: "field \<Rightarrow> string" where
  "keyword Notes = ''notes:''"
| "keyword DueDate = ''due date:''"
| "keyword Area = ''area:''"
| "keyword Project = ''project:''"
| "keyword Tags = ''tag''"

text \<open>The strings the caller supplies to \<open>add_task\<close>, as far as they are set.\<close>

definition supplied ::
  "string \<Rightarrow> string \<Rightarrow> string option \<Rightarrow> string option \<Rightarrow> string option
     \<Rightarrow> string list option \<Rightarrow> string list" where
  "supplied title notes due_date area project tags =
     title # notes # if_set due_date (\<lambda>x. [x]) @ if_set area (\<lambda>x. [x])
       @ if_set project (\<lambda>x. [x]) @ if_set tags (\<lambda>x. x)"

fun absent ::
  "field \<Rightarrow> string \<Rightarrow> string option \<Rightarrow> string option \<Rightarrow> string option
     \<Rightarrow> string list option \<Rightarrow> bool" where
  "absent Notes notes due_date area project tags = (notes = [])"
| "absent DueDate notes due_date area project tags = (\<not> truthy due_date)"
| "absent Area notes due_date area project tags = (\<not> truthy area)"
| "absent Project notes due_date area project tags = (\<not> truthy project)"
| "absent Tags notes due_date area project tags = (\<not> truthy tags)"

section \<open>Properties of the process invoker\<close>

lemma strip_example: "strip ('' 42 '' @ [CHR 0x0A]) = ''42''"
  by code_simp

lemma strip_ok: "strip ''ok'' = ''ok''"
  by code_simp

text \<open>
  C6, as the code has it. A non-zero return code makes \<open>execute_applescript\<close> fail with
  an exception whose message is \<open>Failed to execute AppleScript: AppleScript error: \<close>
  followed by the captured standard error; the timeout makes it fail with an exception
  whose message is \<open>AppleScript execution timed out\<close>; return code zero gives the
  trimmed standard output. Every failure of \<open>execute_applescript\<close> is an object of the one
  class \<open>Exception\<close>: the two failures differ in their message and in nothing else.
\<close>

theorem execute_applescript_outcomes:
  \<open>(run [''osascript'', ''-e'', script] = CompletedProcess rc out err \<and> rc \<noteq> 0 \<longrightarrow>
      execute_applescript run script =
        Inl (Exception (''Failed to execute AppleScript: AppleScript error: '' @ err))) \<and>
   (run [''osascript'', ''-e'', script] = Raises TimeoutExpired \<longrightarrow>
      execute_applescript run script = Inl (Exception ''AppleScript execution timed out'')) \<and>
   (run [''osascript'', ''-e'', script] = CompletedProcess 0 out err \<longrightarrow>
      execute_applescript run script = Inr (strip out)) \<and>
   Exception ''AppleScript execution timed out'' \<noteq>
     Exception (''Failed to execute AppleScript: AppleScript error: '' @ err) \<and>
   (execute_applescript run script = Inl e \<longrightarrow> exception_class e = ''Exception'')\<close>
proof (intro conjI impI)
  assume failed: "execute_applescript run script = Inl e"
  show "exception_class e = ''Exception''"
  proof (cases "execute_applescript_try run script")
    case (Inr returned)
    with failed show ?thesis
      by (simp add: execute_applescript_def)
  next
    case (Inl raised)
    with failed show ?thesis
      by (cases raised) (auto simp: execute_applescript_def)
  qed
qed (simp_all add: execute_applescript_def execute_applescript_try_def)

theorem execute_applescript_outcomes_witness:
  \<open>execute_applescript (\<lambda>_. CompletedProcess 1 [] ''boom'') ''return 1'' =
      Inl (Exception ''Failed to execute AppleScript: AppleScript error: boom'') \<and>
   execute_applescript (\<lambda>_. Raises TimeoutExpired) ''return 1'' =
      Inl (Exception ''AppleScript execution timed out'') \<and>
   execute_applescript (\<lambda>_. CompletedProcess 0 ('' 42 '' @ [CHR 0x0A]) []) ''return 1'' =
      Inr ''42'' \<and>
   exception_class (Exception ''AppleScript execution timed out'') = ''Exception''\<close>
proof (intro conjI)
  show boom: \<open>execute_applescript (\<lambda>_. CompletedProcess 1 [] ''boom'') ''return 1'' =
      Inl (Exception ''Failed to execute AppleScript: AppleScript error: boom'')\<close>
    using execute_applescript_outcomes
            [of "\<lambda>_. CompletedProcess 1 [] ''boom''" "''return 1''" 1 "[]" "''boom''"]
    by simp
  show timed_out: \<open>execute_applescript (\<lambda>_. Raises TimeoutExpired) ''return 1'' =
      Inl (Exception ''AppleScript execution timed out'')\<close>
    using execute_applescript_outcomes [of "\<lambda>_. Raises TimeoutExpired" "''return 1''" 1 "[]" "[]"]
    by simp
  have \<open>execute_applescript (\<lambda>_. CompletedProcess 0 ('' 42 '' @ [CHR 0x0A]) []) ''return 1'' =
        Inr (strip ('' 42 '' @ [CHR 0x0A]))\<close>
    by (rule execute_applescript_outcomes
               [THEN conjunct2, THEN conjunct2, THEN conjunct1, THEN mp])
       (rule refl)
  then show \<open>execute_applescript (\<lambda>_. CompletedProcess 0 ('' 42 '' @ [CHR 0x0A]) []) ''return 1'' =
      Inr ''42''\<close>
    by (simp only: strip_example)
  show \<open>exception_class (Exception ''AppleScript execution timed out'') = ''Exception''\<close>
    by (rule execute_applescript_outcomes
               [THEN conjunct2, THEN conjunct2, THEN conjunct2, THEN conjunct2, THEN mp])
       (rule timed_out)
qed

text \<open>
  C6 as stated fails: there is no timeout error of a kind of its own. The failure after
  the timeout and the failure after a non-zero return code are both of class
  \<open>Exception\<close>, and so is the failure when the program cannot be started; a caller that
  catches one class catches all three.
\<close>

theorem one_error_class:
  \<open>map_sum exception_class id
     (execute_applescript (\<lambda>_. Raises TimeoutExpired) ''return 1'') = Inl ''Exception'' \<and>
   map_sum exception_class id
     (execute_applescript (\<lambda>_. CompletedProcess 1 [] ''boom'') ''return 1'') = Inl ''Exception'' \<and>
   map_sum exception_class id
     (execute_applescript (\<lambda>_. Raises (OSError ''No such file or directory'')) ''return 1'') =
     Inl ''Exception''\<close>
  by (simp add: execute_applescript_def execute_applescript_try_def)

text \<open>
  C9. \<open>execute_applescript\<close> asks the operating system to run one argument vector, and
  that vector is \<open>osascript\<close>, \<open>-e\<close> and the script as it was given; the call is the only
  one it makes. Its result is the result of the function over the logged calls; it
  succeeds only when that call completed with return code zero, and then with the
  trimmed output of that call; so it is decided by what the system does with that one
  vector, whatever it would do with any other, the quote-escaped variant included,
  which is computed and dropped.
\<close>

theorem execute_applescript_verbatim:
  \<open>execute_applescript_logged run script calls =
     (execute_applescript run script, calls @ [[''osascript'', ''-e'', script]]) \<and>
   (execute_applescript run script = Inr returned \<longrightarrow>
      (\<exists>out err. run [''osascript'', ''-e'', script] = CompletedProcess 0 out err
                 \<and> returned = strip out)) \<and>
   (run [''osascript'', ''-e'', script] = run' [''osascript'', ''-e'', script] \<longrightarrow>
      execute_applescript run script = execute_applescript run' script)\<close>
proof (intro conjI impI)
  show \<open>execute_applescript_logged run script calls =
     (execute_applescript run script, calls @ [[''osascript'', ''-e'', script]])\<close>
    by (simp add: execute_applescript_logged_def subprocess_run_def execute_applescript_def
          execute_applescript_try_def)
  show \<open>\<exists>out err. run [''osascript'', ''-e'', script] = CompletedProcess 0 out err
                 \<and> returned = strip out\<close>
    if "execute_applescript run script = Inr returned"
  proof (cases "run [''osascript'', ''-e'', script]")
    case (CompletedProcess rc out err)
    with that show ?thesis
      by (cases "rc = 0") (auto simp: execute_applescript_def execute_applescript_try_def)
  next
    case (Raises raised)
    with that show ?thesis
      by (cases raised) (auto simp: execute_applescript_def execute_applescript_try_def)
  qed
  show "execute_applescript run script = execute_applescript run' script"
    if "run [''osascript'', ''-e'', script] = run' [''osascript'', ''-e'', script]"
    using that by (simp add: execute_applescript_def execute_applescript_try_def)
qed

theorem execute_applescript_verbatim_witness:
  \<open>execute_applescript_logged
      (\<lambda>argv. if argv = [''osascript'', ''-e'', ''it'' @ [CHR 0x27] @ ''s'']
               then CompletedProcess 0 ''ok'' [] else Raises (OSError ''unused''))
      (''it'' @ [CHR 0x27] @ ''s'') [] =
     (Inr ''ok'', [[''osascript'', ''-e'', ''it'' @ [CHR 0x27] @ ''s'']]) \<and>
   execute_applescript
      (\<lambda>argv. if argv = [''osascript'', ''-e'', ''it'' @ [CHR 0x27] @ ''s'']
               then CompletedProcess 0 ''ok'' [] else Raises (OSError ''unused''))
      (''it'' @ [CHR 0x27] @ ''s'') =
    execute_applescript
      (\<lambda>argv. if argv = [''osascript'', ''-e'', ''it'' @ [CHR 0x27] @ ''s'']
               then CompletedProcess 0 ''ok'' [] else CompletedProcess 1 [] ''unused'')
      (''it'' @ [CHR 0x27] @ ''s'')\<close>
proof (intro conjI)
  have ok: \<open>execute_applescript
      (\<lambda>argv. if argv = [''osascript'', ''-e'', ''it'' @ [CHR 0x27] @ ''s'']
               then CompletedProcess 0 ''ok'' [] else Raises (OSError ''unused''))
      (''it'' @ [CHR 0x27] @ ''s'') = Inr ''ok''\<close>
    by (simp add: execute_applescript_def execute_applescript_try_def strip_ok)
  from execute_applescript_verbatim
         [of "\<lambda>argv. if argv = [''osascript'', ''-e'', ''it'' @ [CHR 0x27] @ ''s'']
               then CompletedProcess 0 ''ok'' [] else Raises (OSError ''unused'')"
             "''it'' @ [CHR 0x27] @ ''s''" "[]", THEN conjunct1]
  show \<open>execute_applescript_logged
      (\<lambda>argv. if argv = [''osascript'', ''-e'', ''it'' @ [CHR 0x27] @ ''s'']
               then CompletedProcess 0 ''ok'' [] else Raises (OSError ''unused''))
      (''it'' @ [CHR 0x27] @ ''s'') [] =
     (Inr ''ok'', [[''osascript'', ''-e'', ''it'' @ [CHR 0x27] @ ''s'']])\<close>
    by (simp only: ok append_Nil)
  show \<open>execute_applescript
      (\<lambda>argv. if argv = [''osascript'', ''-e'', ''it'' @ [CHR 0x27] @ ''s'']
               then CompletedProcess 0 ''ok'' [] else Raises (OSError ''unused''))
      (''it'' @ [CHR 0x27] @ ''s'') =
    execute_applescript
      (\<lambda>argv. if argv = [''osascript'', ''-e'', ''it'' @ [CHR 0x27] @ ''s'']
               then CompletedProcess 0 ''ok'' [] else CompletedProcess 1 [] ''unused'')
      (''it'' @ [CHR 0x27] @ ''s'')\<close>
    by (rule execute_applescript_verbatim [THEN conjunct2, THEN conjunct2, THEN mp]) simp
qed

section \<open>The list a name selects\<close>

lemma lower_examples:
  "lower ''ToDay'' = ''today''" "lower ''TODAY'' = ''today''"
  "lower ''INBOX'' = ''inbox''" "lower ''Next Week'' = ''next week''"
  by code_simp+

text \<open>
  C10. The list that \<open>list_tasks\<close> queries depends on the name only up to the case of
  its letters; a name whose lower case is one of the six keys selects that key's list,
  every other name selects the list \<open>Today\<close>, and the script is rendered for it all the
  same: no name is an error.
\<close>

theorem list_name_matching:
  \<open>(lower a = lower b \<longrightarrow> things_list_of a = things_list_of b) \<and>
   (lower list_name \<notin> fst ` set list_mapping \<longrightarrow> things_list_of list_name = ''list "Today"'') \<and>
   (\<forall>(k, v) \<in> set list_mapping. lower list_name = k \<longrightarrow> things_list_of list_name = v) \<and>
   sublist (''set todoList to to dos of '' @ things_list_of list_name)
     (list_tasks_script list_name limit)\<close>
proof (intro conjI)
  show "lower a = lower b \<longrightarrow> things_list_of a = things_list_of b"
    by (simp add: things_list_of_def)
  show \<open>lower list_name \<notin> fst ` set list_mapping \<longrightarrow> things_list_of list_name = ''list "Today"''\<close>
  proof
    assume "lower list_name \<notin> fst ` set list_mapping"
    then have "map_of list_mapping (lower list_name) = None"
      by (simp add: map_of_eq_None_iff)
    then show \<open>things_list_of list_name = ''list "Today"''\<close>
      by (simp add: things_list_of_def)
  qed
  show "\<forall>(k, v) \<in> set list_mapping. lower list_name = k \<longrightarrow> things_list_of list_name = v"
    by (simp add: things_list_of_def list_mapping_def)
  have "list_tasks_script list_name limit =
        (newline @ ''        tell application '' @ [dq] @ ''Things3'' @ [dq] @ newline
           @ ''            set taskList to {}'' @ newline @ ''            '')
        @ (''set todoList to to dos of '' @ things_list_of list_name)
        @ (drop (length (newline @ ''        tell application '' @ [dq] @ ''Things3'' @ [dq] @ newline
           @ ''            set taskList to {}'' @ newline @ ''            ''
           @ ''set todoList to to dos of '' @ things_list_of list_name))
            (list_tasks_script list_name limit))"
    by (simp add: list_tasks_script_def Let_def dq_def newline_def)
  then show "sublist (''set todoList to to dos of '' @ things_list_of list_name)
     (list_tasks_script list_name limit)"
    by (metis sublist_appendI)
qed

theorem list_name_matching_witness:
  \<open>things_list_of ''ToDay'' = things_list_of ''TODAY'' \<and>
   things_list_of ''Next Week'' = ''list "Today"'' \<and>
   things_list_of ''INBOX'' = ''list "Inbox"''\<close>
proof (intro conjI)
  show "things_list_of ''ToDay'' = things_list_of ''TODAY''"
    by (rule list_name_matching [THEN conjunct1, THEN mp]) (simp only: lower_examples)
  have "lower ''Next Week'' \<notin> fst ` set list_mapping"
    by (simp add: lower_examples list_mapping_def)
  then show \<open>things_list_of ''Next Week'' = ''list "Today"''\<close>
    by (rule list_name_matching [THEN conjunct2, THEN conjunct1, THEN mp])
  have \<open>(''inbox'', ''list "Inbox"'') \<in> set list_mapping\<close>
    by (simp add: list_mapping_def)
  from bspec [OF list_name_matching [THEN conjunct2, THEN conjunct2, THEN conjunct1] this,
              of "''INBOX''"]
  show \<open>things_list_of ''INBOX'' = ''list "Inbox"''\<close>
    by (simp add: lower_examples)
qed

section \<open>The dispatcher boundary\<close>

lemma handle_call_tool_try_one:
  "(\<exists>e. handle_call_tool_try run name a = Inl e) \<or> (\<exists>t. handle_call_tool_try run name a = Inr [t])"
proof -
  define one where "one r \<longleftrightarrow> (\<exists>e. r = Inl e) \<or> (\<exists>t. r = Inr [t])" for r :: "py_exn + string list"
  have one_Inr: "one (Inr [t])" for t by (simp add: one_def)
  have one_Inl: "one (Inl e)" for e by (simp add: one_def)
  have one_if: "one x \<Longrightarrow> one y \<Longrightarrow> one (if c then x else y)" for c x y by simp
  have one_then: "(\<And>x. one (f x)) \<Longrightarrow> one (then_do m f)" for f and m :: "py_exn + 'z"
    by (cases m) (simp_all add: then_do_def one_def)
  have "one (handle_call_tool_try run name a)"
    unfolding handle_call_tool_try_def
    by (intro one_if one_then one_Inr one_Inl)
  then show ?thesis by (simp add: one_def)
qed

lemma unknown_tool:
  "name \<notin> set tool_names \<Longrightarrow>
   handle_call_tool run name arguments = [''Error executing '' @ name @ '': Unknown tool: '' @ name]"
  by (simp add: tool_names_def handle_call_tool_def handle_call_tool_try_def)

lemma missing_required:
  assumes rk: "required_key name = Some (key, field)"
    and none: "field (given_arguments arguments) = None"
  shows "handle_call_tool run name arguments = [''Error executing '' @ name @ '': '' @ quote @ key @ quote]"
proof (cases "name = ''add_task'' \<or> name = ''add_project''")
  case True
  with rk have "key = ''title''" "field = arg_title"
    by (simp_all add: required_key_def)
  with True none show ?thesis
    by (elim disjE)
       (simp_all add: handle_call_tool_def handle_call_tool_try_def required_def then_do_def quote_def)
next
  case a: False
  show ?thesis
  proof (cases "name = ''complete_task'' \<or> name = ''update_task''")
    case True
    with a rk have "key = ''task_id''" "field = arg_task_id"
      by (simp_all add: required_key_def)
    with True none show ?thesis
      by (elim disjE)
         (simp_all add: handle_call_tool_def handle_call_tool_try_def required_def then_do_def quote_def)
  next
    case b: False
    with a rk have "name = ''search_tasks''" "key = ''query''" "field = arg_query"
      by (simp_all add: required_key_def split: if_splits)
    with none show ?thesis
      by (simp add: handle_call_tool_def handle_call_tool_try_def required_def then_do_def quote_def)
  qed
qed

lemma invoker_failure:
  assumes "name \<in> set tool_names"
    and req: "\<And>key field. required_key name = Some (key, field) \<Longrightarrow> field (given_arguments arguments) \<noteq> None"
    and "\<And>script. execute_applescript run script = Inl (Exception m)"
  shows "handle_call_tool run name arguments = [''Error executing '' @ name @ '': '' @ m]"
proof -
  have tools: "add_task run t n d ar p tg = Inl (Exception m)"
     "list_tasks run l k = Inl (Exception m)"
     "complete_task run t = Inl (Exception m)"
     "search_tasks run t k = Inl (Exception m)"
     "list_projects run t = Inl (Exception m)"
     "add_project run t n ar w = Inl (Exception m)"
     "get_daily_overview run = Inl (Exception m)"
     "update_task run t d ar p tg = Inl (Exception m)" for t n d ar p tg l k w
    by (simp_all add: add_task_def list_tasks_def complete_task_def search_tasks_def
          list_projects_def add_project_def get_daily_overview_def update_task_def
          then_do_def assms(3))
  have names: "name = ''add_task'' \<or> name = ''list_tasks'' \<or> name = ''complete_task''
    \<or> name = ''search_tasks'' \<or> name = ''list_projects'' \<or> name = ''add_project''
    \<or> name = ''get_daily_overview'' \<or> name = ''update_task''"
    using assms(1) by (simp add: tool_names_def)
  have title: "\<exists>t. arg_title (given_arguments arguments) = Some t"
    if "name = ''add_task'' \<or> name = ''add_project''"
    using that req [of "''title''" arg_title] by (elim disjE) (simp_all add: required_key_def)
  have task_id: "\<exists>t. arg_task_id (given_arguments arguments) = Some t"
    if "name = ''complete_task'' \<or> name = ''update_task''"
    using that req [of "''task_id''" arg_task_id] by (elim disjE) (simp_all add: required_key_def)
  have query: "\<exists>t. arg_query (given_arguments arguments) = Some t"
    if "name = ''search_tasks''"
    using req [of "''query''" arg_query] that by (simp add: required_key_def)
  from names show ?thesis
  proof (elim disjE)
    assume n: "name = ''add_task''"
    with title obtain t where "arg_title (given_arguments arguments) = Some t" by auto
    with n show ?thesis
      by (simp add: handle_call_tool_def handle_call_tool_try_def required_def then_do_def tools)
  next
    assume n: "name = ''list_tasks''"
    then show ?thesis
      by (simp add: handle_call_tool_def handle_call_tool_try_def required_def then_do_def tools)
  next
    assume n: "name = ''complete_task''"
    with task_id obtain t where "arg_task_id (given_arguments arguments) = Some t" by auto
    with n show ?thesis
      by (simp add: handle_call_tool_def handle_call_tool_try_def required_def then_do_def tools)
  next
    assume n: "name = ''search_tasks''"
    with query obtain t where "arg_query (given_arguments arguments) = Some t" by auto
    with n show ?thesis
      by (simp add: handle_call_tool_def handle_call_tool_try_def required_def then_do_def tools)
  next
    assume n: "name = ''list_projects''"
    then show ?thesis
      by (simp add: handle_call_tool_def handle_call_tool_try_def required_def then_do_def tools)
  next
    assume n: "name = ''add_project''"
    with title obtain t where "arg_title (given_arguments arguments) = Some t" by auto
    with n show ?thesis
      by (simp add: handle_call_tool_def handle_call_tool_try_def required_def then_do_def tools)
  next
    assume n: "name = ''get_daily_overview''"
    then show ?thesis
      by (simp add: handle_call_tool_def handle_call_tool_try_def required_def then_do_def tools)
  next
    assume n: "name = ''update_task''"
    with task_id obtain t where "arg_task_id (given_arguments arguments) = Some t" by auto
    with n show ?thesis
      by (simp add: handle_call_tool_def handle_call_tool_try_def required_def then_do_def tools)
  qed
qed

text \<open>
  C7. Whatever the operation name, the argument bundle and the behaviour of the system,
  \<open>handle_call_tool\<close> returns exactly one text. Every exception of the body is turned
  into the text \<open>Error executing <name>: <cause>\<close>: an unknown name, a missing required
  argument (the cause is the key), and a failure of the invoker (the cause is its
  message). The model's result type has no exception: none leaves the handler.
\<close>

theorem handle_call_tool_one_response:
  "(\<exists>text. handle_call_tool run name arguments = [text]) \<and>
   (\<forall>e. handle_call_tool_try run name (given_arguments arguments) = Inl e \<longrightarrow>
      handle_call_tool run name arguments = [''Error executing '' @ name @ '': '' @ str_exn e]) \<and>
   (name \<notin> set tool_names \<longrightarrow>
      handle_call_tool run name arguments =
        [''Error executing '' @ name @ '': Unknown tool: '' @ name]) \<and>
   (\<forall>key field. required_key name = Some (key, field) \<and> field (given_arguments arguments) = None \<longrightarrow>
      handle_call_tool run name arguments =
        [''Error executing '' @ name @ '': '' @ quote @ key @ quote]) \<and>
   (name \<in> set tool_names \<and>
    (\<forall>key field. required_key name = Some (key, field) \<longrightarrow> field (given_arguments arguments) \<noteq> None) \<and>
    (\<forall>script. execute_applescript run script = Inl (Exception m)) \<longrightarrow>
      handle_call_tool run name arguments = [''Error executing '' @ name @ '': '' @ m])"
proof (intro conjI allI impI)
  show "\<exists>text. handle_call_tool run name arguments = [text]"
    using handle_call_tool_try_one [of run name "given_arguments arguments"]
    by (auto simp: handle_call_tool_def Let_def)
  show "handle_call_tool run name arguments = [''Error executing '' @ name @ '': '' @ str_exn e]"
    if "handle_call_tool_try run name (given_arguments arguments) = Inl e" for e
    using that by (simp add: handle_call_tool_def Let_def)
  show "handle_call_tool run name arguments = [''Error executing '' @ name @ '': Unknown tool: '' @ name]"
    if "name \<notin> set tool_names"
    using that by (rule unknown_tool)
  show "handle_call_tool run name arguments = [''Error executing '' @ name @ '': '' @ quote @ key @ quote]"
    if "required_key name = Some (key, field) \<and> field (given_arguments arguments) = None" for key field
    using that missing_required by blast
  show "handle_call_tool run name arguments = [''Error executing '' @ name @ '': '' @ m]"
    if "name \<in> set tool_names \<and>
        (\<forall>key field. required_key name = Some (key, field) \<longrightarrow> field (given_arguments arguments) \<noteq> None) \<and>
        (\<forall>script. execute_applescript run script = Inl (Exception m))"
    using that by (intro invoker_failure) simp_all
qed

theorem handle_call_tool_one_response_witness:
  "handle_call_tool (\<lambda>_. Raises TimeoutExpired) ''frobnicate'' None =
     [''Error executing frobnicate: Unknown tool: frobnicate''] \<and>
   handle_call_tool (\<lambda>_. Raises TimeoutExpired) ''add_task'' None =
     [''Error executing add_task: '' @ [CHR 0x27] @ ''title'' @ [CHR 0x27]] \<and>
   handle_call_tool (\<lambda>_. Raises TimeoutExpired) ''add_task''
       (Some (no_arguments \<lparr> arg_title := Some ''Buy milk'' \<rparr>)) =
     [''Error executing add_task: AppleScript execution timed out'']"
proof (intro conjI)
  have "''frobnicate'' \<notin> set tool_names"
    by (simp add: tool_names_def)
  with handle_call_tool_one_response [of "\<lambda>_. Raises TimeoutExpired" "''frobnicate''" None]
  show "handle_call_tool (\<lambda>_. Raises TimeoutExpired) ''frobnicate'' None =
     [''Error executing frobnicate: Unknown tool: frobnicate'']"
    by simp
  have "handle_call_tool (\<lambda>_. Raises TimeoutExpired) ''add_task'' None =
     [''Error executing '' @ ''add_task'' @ '': '' @ quote @ ''title'' @ quote]"
    by (rule handle_call_tool_one_response
               [THEN conjunct2, THEN conjunct2, THEN conjunct2, THEN conjunct1, rule_format,
                of "''add_task''" _ arg_title])
       (simp add: required_key_def given_arguments_def no_arguments_def)
  then show "handle_call_tool (\<lambda>_. Raises TimeoutExpired) ''add_task'' None =
     [''Error executing add_task: '' @ [CHR 0x27] @ ''title'' @ [CHR 0x27]]"
    by (simp add: quote_def)
  have "''add_task'' \<in> set tool_names \<and>
    (\<forall>key field. required_key ''add_task'' = Some (key, field) \<longrightarrow>
       field (given_arguments (Some (no_arguments \<lparr> arg_title := Some ''Buy milk'' \<rparr>))) \<noteq> None) \<and>
    (\<forall>script. execute_applescript (\<lambda>_. Raises TimeoutExpired) script =
       Inl (Exception ''AppleScript execution timed out''))"
    by (auto simp: tool_names_def required_key_def given_arguments_def
                   execute_applescript_def execute_applescript_try_def)
  with handle_call_tool_one_response
         [of "\<lambda>_. Raises TimeoutExpired" "''add_task''"
             "Some (no_arguments \<lparr> arg_title := Some ''Buy milk'' \<rparr>)"
             "''AppleScript execution timed out''"]
  show "handle_call_tool (\<lambda>_. Raises TimeoutExpired) ''add_task''
       (Some (no_arguments \<lparr> arg_title := Some ''Buy milk'' \<rparr>)) =
     [''Error executing add_task: AppleScript execution timed out'']"
    by simp
qed

section \<open>The response parser\<close>

lemma py_split_no_sep: "\<not> sublist sep s \<Longrightarrow> sep \<noteq> [] \<Longrightarrow> py_split sep s = [s]"
proof (induction sep s rule: py_split.induct)
  case (1 sep s)
  show ?case
  proof (cases "s = []")
    case True
    then show ?thesis by (simp add: py_split.simps)
  next
    case False
    with 1(3) have np: "\<not> prefix sep s" by auto
    from False obtain c t where s: "s = c # t" by (cases s) auto
    with 1(3) have "\<not> sublist sep t" by (auto simp: sublist_Cons_right)
    with 1(2) [OF False _ ] np 1(4) have "py_split sep (tl s) = [tl s]"
      using s by simp
    with False np s show ?thesis
      by (subst py_split.simps) simp
  qed
qed

lemma list_tasks_record_fields:
  "6 \<le> length parts \<Longrightarrow>
   list_tasks_record parts =
     Inr \<lparr> task_title = strip (parts ! 0),
           task_id = strip (parts ! 1),
           task_notes = (if strip (parts ! 2) = ''missing value'' then [] else strip (parts ! 2)),
           task_due_date =
             (if strip (parts ! 3) = ''missing value'' then None else Some (strip (parts ! 3))),
           task_creation_date =
             (if strip (parts ! 4) = ''missing value'' then None else Some (strip (parts ! 4))),
           task_status = strip (parts ! 5) \<rparr>"
  by (auto simp: list_tasks_record_def item_def then_do_def)

lemma entry_record_fields:
  "3 \<le> length parts \<Longrightarrow>
   entry_record parts =
     Inr \<lparr> entry_title = strip (parts ! 0), entry_id = strip (parts ! 1),
           entry_status = strip (parts ! 2) \<rparr>"
  by (auto simp: entry_record_def item_def then_do_def)

lemma list_tasks_loop_records:
  "\<exists>tasks. list_tasks_loop lines acc = Inr (acc @ tasks) \<and>
     map Inr tasks =
       map list_tasks_record (filter (\<lambda>parts. 6 \<le> length parts) (map (py_split ''|||'') lines))"
proof (induction lines arbitrary: acc)
  case Nil
  then show ?case by simp
next
  case (Cons task_line rest)
  show ?case
  proof (cases "sublist ''|||'' task_line \<and> 6 \<le> length (py_split ''|||'' task_line)")
    case True
    then obtain d where d: "list_tasks_record (py_split ''|||'' task_line) = Inr d"
      using list_tasks_record_fields by blast
    from Cons [of "acc @ [d]"] obtain tasks where
      "list_tasks_loop rest (acc @ [d]) = Inr ((acc @ [d]) @ tasks)"
      "map Inr tasks =
         map list_tasks_record (filter (\<lambda>parts. 6 \<le> length parts) (map (py_split ''|||'') rest))"
      by blast
    with True d show ?thesis
      by (intro exI [of _ "d # tasks"]) (simp add: then_do_def)
  next
    case False
    have short: "\<not> 6 \<le> length (py_split ''|||'' task_line)"
    proof (cases "sublist ''|||'' task_line")
      case True
      with False show ?thesis by simp
    next
      case False
      then show ?thesis by (simp add: py_split_no_sep)
    qed
    from Cons [of acc] obtain tasks where
      "list_tasks_loop rest acc = Inr (acc @ tasks)"
      "map Inr tasks =
         map list_tasks_record (filter (\<lambda>parts. 6 \<le> length parts) (map (py_split ''|||'') rest))"
      by blast
    with False short show ?thesis
      by (intro exI [of _ tasks]) auto
  qed
qed

lemma entries_loop_records:
  "\<exists>tasks. entries_loop lines acc = Inr (acc @ tasks) \<and>
     map Inr tasks =
       map entry_record (filter (\<lambda>parts. 3 \<le> length parts) (map (py_split ''|||'') lines))"
proof (induction lines arbitrary: acc)
  case Nil
  then show ?case by simp
next
  case (Cons task_line rest)
  show ?case
  proof (cases "sublist ''|||'' task_line \<and> 3 \<le> length (py_split ''|||'' task_line)")
    case True
    then obtain d where d: "entry_record (py_split ''|||'' task_line) = Inr d"
      using entry_record_fields by blast
    from Cons [of "acc @ [d]"] obtain tasks where
      "entries_loop rest (acc @ [d]) = Inr ((acc @ [d]) @ tasks)"
      "map Inr tasks =
         map entry_record (filter (\<lambda>parts. 3 \<le> length parts) (map (py_split ''|||'') rest))"
      by blast
    with True d show ?thesis
      by (intro exI [of _ "d # tasks"]) (simp add: then_do_def)
  next
    case False
    have short: "\<not> 3 \<le> length (py_split ''|||'' task_line)"
    proof (cases "sublist ''|||'' task_line")
      case True
      with False show ?thesis by simp
    next
      case False
      then show ?thesis by (simp add: py_split_no_sep)
    qed
    from Cons [of acc] obtain tasks where
      "entries_loop rest acc = Inr (acc @ tasks)"
      "map Inr tasks =
         map entry_record (filter (\<lambda>parts. 3 \<le> length parts) (map (py_split ''|||'') rest))"
      by blast
    with False short show ?thesis
      by (intro exI [of _ tasks]) auto
  qed
qed

lemma split_empty: "py_split sep [] = [[]]"
  by (simp add: py_split.simps)

lemma list_tasks_parse_records:
  "\<exists>tasks. list_tasks_parse raw = Inr tasks \<and>
     map Inr tasks =
       map list_tasks_record
         (filter (\<lambda>parts. 6 \<le> length parts) (map (py_split ''|||'') (py_split '','' raw)))"
proof (cases "raw = []")
  case True
  then show ?thesis by (simp add: list_tasks_parse_def split_empty)
next
  case False
  with list_tasks_loop_records [of "py_split '','' raw" "[]"] show ?thesis
    by (simp add: list_tasks_parse_def)
qed

lemma entries_parse_records:
  "\<exists>tasks. (if raw = [] then Inr [] else entries_loop (py_split '','' raw) []) = Inr tasks \<and>
     map Inr tasks =
       map entry_record
         (filter (\<lambda>parts. 3 \<le> length parts) (map (py_split ''|||'') (py_split '','' raw)))"
proof (cases "raw = []")
  case True
  then show ?thesis by (simp add: split_empty)
next
  case False
  with entries_loop_records [of "py_split '','' raw" "[]"] show ?thesis
    by simp
qed

text \<open>
  C4. Each parser answers without raising, for every response text. Its records are the
  records of the comma-separated pieces that split into at least six fields
  (\<open>list_tasks\<close>) or three fields (\<open>search_tasks\<close>, \<open>list_projects\<close>) on \<open>|||\<close>, in
  their order; every other piece is dropped. The empty response gives no record.
\<close>

theorem parsers_drop_malformed:
  "(\<exists>tasks. list_tasks_parse raw = Inr tasks \<and>
      map Inr tasks =
        map list_tasks_record
          (filter (\<lambda>parts. 6 \<le> length parts) (map (py_split ''|||'') (py_split '','' raw)))) \<and>
   (\<exists>tasks. search_tasks_parse raw = Inr tasks \<and>
      map Inr tasks =
        map entry_record
          (filter (\<lambda>parts. 3 \<le> length parts) (map (py_split ''|||'') (py_split '','' raw)))) \<and>
   (\<exists>projects. list_projects_parse raw = Inr projects \<and>
      map Inr projects =
        map entry_record
          (filter (\<lambda>parts. 3 \<le> length parts) (map (py_split ''|||'') (py_split '','' raw)))) \<and>
   list_tasks_parse [] = Inr [] \<and> search_tasks_parse [] = Inr [] \<and>
   list_projects_parse [] = Inr []"
  using list_tasks_parse_records [of raw] entries_parse_records [of raw]
  by (simp add: search_tasks_parse_def list_projects_parse_def list_tasks_parse_def)

lemma mixed_response_records:
  "map list_tasks_record
     (filter (\<lambda>parts. 6 \<le> length parts)
        (map (py_split ''|||'')
           (py_split '','' ''Buy milk|||T1|||missing value|||missing value|||Monday|||open,junk,Call|||T2,Pay rent|||T3|||by bank|||Friday|||Sunday|||open''))) =
   [Inr \<lparr> task_title = ''Buy milk'', task_id = ''T1'', task_notes = [], task_due_date = None,
          task_creation_date = Some ''Monday'', task_status = ''open'' \<rparr>,
    Inr \<lparr> task_title = ''Pay rent'', task_id = ''T3'', task_notes = ''by bank'',
          task_due_date = Some ''Friday'', task_creation_date = Some ''Sunday'',
          task_status = ''open'' \<rparr>]"
  by code_simp

theorem parsers_drop_malformed_witness:
  "list_tasks_parse ''Buy milk|||T1|||missing value|||missing value|||Monday|||open,junk,Call|||T2,Pay rent|||T3|||by bank|||Friday|||Sunday|||open'' =
   Inr [\<lparr> task_title = ''Buy milk'', task_id = ''T1'', task_notes = [], task_due_date = None,
          task_creation_date = Some ''Monday'', task_status = ''open'' \<rparr>,
        \<lparr> task_title = ''Pay rent'', task_id = ''T3'', task_notes = ''by bank'',
          task_due_date = Some ''Friday'', task_creation_date = Some ''Sunday'',
          task_status = ''open'' \<rparr>]"
proof -
  from parsers_drop_malformed
         [of "''Buy milk|||T1|||missing value|||missing value|||Monday|||open,junk,Call|||T2,Pay rent|||T3|||by bank|||Friday|||Sunday|||open''"]
  obtain tasks where
    p: "list_tasks_parse ''Buy milk|||T1|||missing value|||missing value|||Monday|||open,junk,Call|||T2,Pay rent|||T3|||by bank|||Friday|||Sunday|||open'' = Inr tasks"
    and m: "map Inr tasks =
      map list_tasks_record
       (filter (\<lambda>parts. 6 \<le> length parts)
         (map (py_split ''|||'')
           (py_split '','' ''Buy milk|||T1|||missing value|||missing value|||Monday|||open,junk,Call|||T2,Pay rent|||T3|||by bank|||Friday|||Sunday|||open'')))"
    by (elim conjE exE)
  from m have "tasks =
      [\<lparr> task_title = ''Buy milk'', task_id = ''T1'', task_notes = [], task_due_date = None,
          task_creation_date = Some ''Monday'', task_status = ''open'' \<rparr>,
        \<lparr> task_title = ''Pay rent'', task_id = ''T3'', task_notes = ''by bank'',
          task_due_date = Some ''Friday'', task_creation_date = Some ''Sunday'',
          task_status = ''open'' \<rparr>]"
    unfolding mixed_response_records by (simp add: map_eq_Cons_conv)
  with p show ?thesis by simp
qed

text \<open>
  C3, as the code has it. In \<open>list_tasks\<close> the notes, the due date and the creation date
  of a record are never the text \<open>missing value\<close>: a field that trims to it becomes the
  empty string (notes) or \<open>None\<close> (the dates). The title, the identifier and the status
  of \<open>list_tasks\<close>, and the three fields of \<open>search_tasks\<close> and \<open>list_projects\<close>, are
  the trimmed text of their field, whatever it is.
\<close>

theorem sentinel_mapping:
  "(list_tasks_parse raw = Inr tasks \<longrightarrow>
      (\<forall>d \<in> set tasks. task_notes d \<noteq> ''missing value'' \<and>
         task_due_date d \<noteq> Some ''missing value'' \<and>
         task_creation_date d \<noteq> Some ''missing value'')) \<and>
   (6 \<le> length parts \<longrightarrow>
      list_tasks_record parts =
        Inr \<lparr> task_title = strip (parts ! 0),
              task_id = strip (parts ! 1),
              task_notes = (if strip (parts ! 2) = ''missing value'' then [] else strip (parts ! 2)),
              task_due_date =
                (if strip (parts ! 3) = ''missing value'' then None else Some (strip (parts ! 3))),
              task_creation_date =
                (if strip (parts ! 4) = ''missing value'' then None else Some (strip (parts ! 4))),
              task_status = strip (parts ! 5) \<rparr>) \<and>
   (3 \<le> length parts \<longrightarrow>
      entry_record parts =
        Inr \<lparr> entry_title = strip (parts ! 0), entry_id = strip (parts ! 1),
              entry_status = strip (parts ! 2) \<rparr>)"
proof (intro conjI impI ballI)
  fix d
  assume parse: "list_tasks_parse raw = Inr tasks" and d: "d \<in> set tasks"
  from list_tasks_parse_records [of raw] parse have
    "map Inr tasks =
       map list_tasks_record
         (filter (\<lambda>parts. 6 \<le> length parts) (map (py_split ''|||'') (py_split '','' raw)))"
    by simp
  moreover from d have "Inr d \<in> set (map Inr tasks :: (py_exn + task_info) list)"
    by simp
  ultimately obtain ps where ps: "6 \<le> length ps" "list_tasks_record ps = Inr d"
    by auto
  from list_tasks_record_fields [OF ps(1)] ps(2)
  show "task_notes d \<noteq> ''missing value''" "task_due_date d \<noteq> Some ''missing value''"
    "task_creation_date d \<noteq> Some ''missing value''"
    by auto
qed (simp_all add: list_tasks_record_fields entry_record_fields)

lemma sentinel_response:
  "list_tasks_parse ''Buy milk|||T1|||missing value|||missing value|||  missing value |||open'' =
   Inr [\<lparr> task_title = ''Buy milk'', task_id = ''T1'', task_notes = [], task_due_date = None,
          task_creation_date = None, task_status = ''open'' \<rparr>]"
  by code_simp

lemma strip_examples:
  "strip ''Buy milk'' = ''Buy milk''" "strip '' T1 '' = ''T1''" "strip ''missing value '' = ''missing value''"
  "strip ''open'' = ''open''" "strip ''Monday'' = ''Monday''"
  by code_simp+

theorem sentinel_mapping_witness:
  "task_notes \<lparr> task_title = ''Buy milk'', task_id = ''T1'', task_notes = [], task_due_date = None,
          task_creation_date = None, task_status = ''open'' \<rparr> \<noteq> ''missing value'' \<and>
   list_tasks_parse ''Buy milk|||T1|||missing value|||missing value|||  missing value |||open'' =
   Inr [\<lparr> task_title = ''Buy milk'', task_id = ''T1'', task_notes = [], task_due_date = None,
          task_creation_date = None, task_status = ''open'' \<rparr>] \<and>
   list_tasks_record [''Buy milk'', '' T1 '', ''missing value '', ''missing value '', ''Monday'', ''open''] =
   Inr \<lparr> task_title = ''Buy milk'', task_id = ''T1'', task_notes = [], task_due_date = None,
         task_creation_date = Some ''Monday'', task_status = ''open'' \<rparr> \<and>
   entry_record [''missing value '', '' T1 '', ''open''] =
   Inr \<lparr> entry_title = ''missing value'', entry_id = ''T1'', entry_status = ''open'' \<rparr>"
proof (intro conjI)
  from sentinel_mapping
         [of "''Buy milk|||T1|||missing value|||missing value|||  missing value |||open''"
             "[\<lparr> task_title = ''Buy milk'', task_id = ''T1'', task_notes = [], task_due_date = None,
                 task_creation_date = None, task_status = ''open'' \<rparr>]",
          THEN conjunct1, THEN mp, OF sentinel_response]
  show "task_notes \<lparr> task_title = ''Buy milk'', task_id = ''T1'', task_notes = [], task_due_date = None,
          task_creation_date = None, task_status = ''open'' \<rparr> \<noteq> ''missing value''"
    by simp
  show "list_tasks_parse ''Buy milk|||T1|||missing value|||missing value|||  missing value |||open'' =
   Inr [\<lparr> task_title = ''Buy milk'', task_id = ''T1'', task_notes = [], task_due_date = None,
          task_creation_date = None, task_status = ''open'' \<rparr>]"
    by (rule sentinel_response)
  have "6 \<le> length [''Buy milk'', '' T1 '', ''missing value '', ''missing value '', ''Monday'', ''open'']"
    by simp
  from sentinel_mapping [THEN conjunct2, THEN conjunct1, THEN mp, OF this]
  show "list_tasks_record [''Buy milk'', '' T1 '', ''missing value '', ''missing value '', ''Monday'', ''open''] =
   Inr \<lparr> task_title = ''Buy milk'', task_id = ''T1'', task_notes = [], task_due_date = None,
         task_creation_date = Some ''Monday'', task_status = ''open'' \<rparr>"
    by (simp add: strip_examples)
  have "3 \<le> length [''missing value '', '' T1 '', ''open'']"
    by simp
  from sentinel_mapping [THEN conjunct2, THEN conjunct2, THEN mp, OF this]
  show "entry_record [''missing value '', '' T1 '', ''open''] =
   Inr \<lparr> entry_title = ''missing value'', entry_id = ''T1'', entry_status = ''open'' \<rparr>"
    by (simp add: strip_examples)
qed

text \<open>
  C3 as stated fails: \<open>search_tasks\<close> passes the text \<open>missing value\<close> through in its
  title and status, and \<open>list_tasks\<close> passes it through in its title.
\<close>

theorem sentinel_passes_through:
  "search_tasks_parse ''missing value|||T1|||missing value'' =
     Inr [\<lparr> entry_title = ''missing value'', entry_id = ''T1'', entry_status = ''missing value'' \<rparr>] \<and>
   list_tasks_parse ''missing value|||T1|||n|||d|||c|||open'' =
     Inr [\<lparr> task_title = ''missing value'', task_id = ''T1'', task_notes = ''n'',
            task_due_date = Some ''d'', task_creation_date = Some ''c'', task_status = ''open'' \<rparr>]"
  by code_simp

section \<open>The limit of a listing\<close>







section \<open>String literals of the rendered scripts\<close>

lemma read_chars_quote: "read_chars (dq # r) = Some ([], r)"
  by (cases r) simp_all

lemma read_chars_step:
  "c \<noteq> dq \<Longrightarrow> c \<noteq> backslash \<Longrightarrow> t \<noteq> [] \<Longrightarrow>
   read_chars (c # t) = map_option (\<lambda>(v, rest). (c # v, rest)) (read_chars t)"
  by (cases t) simp_all

lemma read_chars_plain: "plain s \<Longrightarrow> read_chars (s @ dq # r) = Some (s, r)"
proof (induction s)
  case Nil
  then show ?case by (simp add: read_chars_quote)
next
  case (Cons c s)
  then have "c \<noteq> dq" "c \<noteq> backslash" "plain s"
    by (auto simp: plain_def)
  with Cons.IH show ?case
    by (simp add: read_chars_step)
qed

lemma read_chars_append:
  "read_chars s = Some (v, rest) \<Longrightarrow> read_chars (s @ b) = Some (v, rest @ b)"
proof (induction s arbitrary: v rule: read_chars.induct)
  case 1
  then show ?case by simp
next
  case (2 c)
  then show ?case by (simp add: read_chars_quote split: if_splits)
next
  case (3 c d s)
  then show ?case
    by (auto split: if_splits option.splits)
qed

lemma literals_skip: "dq \<notin> set a \<Longrightarrow> string_literals (a @ r) = string_literals r"
  by (induction a) auto

lemma literals_none: "dq \<notin> set a \<Longrightarrow> string_literals a = Some []"
  using literals_skip [of a "[]"] by simp

lemma literals_literal:
  "plain s \<Longrightarrow> string_literals (dq # s @ dq # r) = map_option ((#) s) (string_literals r)"
  by (simp add: read_chars_plain)

lemma literals_append:
  "string_literals a = Some x \<Longrightarrow>
   string_literals (a @ b) = map_option ((@) x) (string_literals b)"
proof (induction a arbitrary: x rule: string_literals.induct)
  case 1
  then show ?case by (simp add: option.map_ident)
next
  case (2 c s)
  show ?case
  proof (cases "c = dq")
    case False
    with 2 show ?thesis by simp
  next
    case True
    with 2(3) obtain v rest x' where
      r: "read_chars s = Some (v, rest)" and l: "string_literals rest = Some x'" and x: "x = v # x'"
      by (auto split: option.splits)
    from 2(1) [OF True r refl l]
    have "string_literals (rest @ b) = map_option ((@) x') (string_literals b)" .
    with True r x show ?thesis
      by (simp add: read_chars_append option.map_comp comp_def)
  qed
qed

lemma literals_append2:
  "string_literals a = Some x \<Longrightarrow> string_literals b = Some y \<Longrightarrow>
   string_literals (a @ b) = Some (x @ y)"
  by (simp add: literals_append)

lemma py_join_Cons:
  "py_join sep (x # xs) = (if xs = [] then x else x @ sep @ py_join sep xs)"
  by (cases xs) simp_all

lemma literals_join:
  "list_all2 (\<lambda>l x. string_literals l = Some x) ls xs \<Longrightarrow>
   string_literals (py_join newline ls) = Some (concat xs)"
proof (induction ls xs rule: list_all2_induct)
  case Nil
  then show ?case by simp
next
  case (Cons l ls x xs)
  show ?case
  proof (cases "ls = []")
    case True
    with Cons show ?thesis by simp
  next
    case False
    have "string_literals (newline @ py_join newline ls) = Some (concat xs)"
      using Cons.IH by (simp add: literals_skip newline_def dq_def)
    with Cons.hyps(1) False show ?thesis
      by (simp add: py_join_Cons literals_append2)
  qed
qed

lemma clause_literals:
  "dq \<notin> set pre \<Longrightarrow> dq \<notin> set post \<Longrightarrow> plain x \<Longrightarrow>
   string_literals (pre @ dq # x @ dq # post) = Some [x]"
  by (simp add: literals_skip read_chars_plain literals_none)

lemma optional_literals:
  assumes "dq \<notin> set pre" "dq \<notin> set post" "\<And>x. v = Some x \<Longrightarrow> plain x"
  shows "string_literals (if_set v (\<lambda>x. pre @ dq # x @ dq # post)) = Some (if_set v (\<lambda>x. [x]))"
  using assms by (cases v) (simp_all add: if_set_def clause_literals)

lemma tags_literals:
  assumes "tags \<noteq> []" "\<forall>t \<in> set tags. plain t" "dq \<notin> set post"
  shows "string_literals (dq # py_join (dq # '', '' @ [dq]) tags @ dq # post) = Some tags"
  using assms
proof (induction tags)
  case Nil
  then show ?case by simp
next
  case (Cons t tags)
  show ?case
  proof (cases "tags = []")
    case True
    with Cons.prems show ?thesis
      by (simp add: read_chars_plain literals_none)
  next
    case False
    with Cons have ih: "string_literals (dq # py_join (dq # '', '' @ [dq]) tags @ dq # post) = Some tags"
      by simp
    have "dq # py_join (dq # '', '' @ [dq]) (t # tags) @ dq # post =
          dq # t @ dq # ('', '' @ (dq # py_join (dq # '', '' @ [dq]) tags @ dq # post))"
      using False by (simp add: py_join_Cons)
    moreover have "string_literals ('', '' @ (dq # py_join (dq # '', '' @ [dq]) tags @ dq # post)) = Some tags"
      using ih by (subst literals_skip) (simp_all add: dq_def)
    ultimately show ?thesis
      using Cons.prems by (simp add: read_chars_plain)
  qed
qed

lemma plain_supplied:
  assumes "\<forall>s \<in> set (supplied title notes due_date area project tags). plain s"
  shows "plain title" "plain notes" "\<And>x. due_date = Some x \<Longrightarrow> plain x"
    "\<And>x. area = Some x \<Longrightarrow> plain x" "\<And>x. project = Some x \<Longrightarrow> plain x"
    "\<And>x. tags = Some x \<Longrightarrow> \<forall>t \<in> set x. plain t"
proof -
  show "plain title" "plain notes"
    using assms by (simp_all add: supplied_def)
  show "plain x" if "due_date = Some x" for x
    using assms that by (cases "x = []") (simp_all add: supplied_def if_set_def plain_def)
  show "plain x" if "area = Some x" for x
    using assms that by (cases "x = []") (simp_all add: supplied_def if_set_def plain_def)
  show "plain x" if "project = Some x" for x
    using assms that by (cases "x = []") (simp_all add: supplied_def if_set_def plain_def)
  show "\<forall>t \<in> set x. plain t" if "tags = Some x" for x
    using assms that by (cases "x = []") (simp_all add: supplied_def if_set_def)
qed

lemma add_task_script_shape:
  \<open>add_task_script title notes due_date area project tags =
     py_join newline
       ([''tell application "Things3"'',
         (''    set newToDo to make new to do with properties {name:'' @ dq # title @ dq # [])
           @ (if notes \<noteq> [] then '', notes:'' @ dq # notes @ dq # [] else [])
           @ if_set due_date (\<lambda>x. '', due date:date('' @ dq # x @ dq # '')'')
           @ if_set area (\<lambda>x. '', area:'' @ dq # x @ dq # [])
           @ if_set project (\<lambda>x. '', project:'' @ dq # x @ dq # [])
           @ ''}'']
        @ if_set tags (\<lambda>x.
            [''    repeat with tagName in {'' @ dq # py_join (dq # '', '' @ [dq]) x @ dq # ''}'',
             ''        set tag of newToDo to tagName'',
             ''    end repeat''])
        @ [''    return id of newToDo'',
           ''end tell''])\<close>
  by (simp add: add_task_script_def dq_def)

lemma add_task_literals:
  assumes "\<forall>s \<in> set (supplied title notes due_date area project tags). plain s"
  shows "string_literals (add_task_script title notes due_date area project tags) =
     Some ([''Things3'', title] @ (if notes \<noteq> [] then [notes] else [])
             @ if_set due_date (\<lambda>x. [x]) @ if_set area (\<lambda>x. [x])
             @ if_set project (\<lambda>x. [x]) @ if_set tags (\<lambda>x. x))"
proof -
  note pl = plain_supplied [OF assms]
  have head: \<open>string_literals ''tell application "Things3"'' = Some [''Things3'']\<close>
    by code_simp
  have notes_clause: "string_literals (if notes \<noteq> [] then '', notes:'' @ dq # notes @ dq # [] else []) =
      Some (if notes \<noteq> [] then [notes] else [])"
  proof (cases "notes = []")
    case True
    then show ?thesis by simp
  next
    case False
    have "dq \<notin> set '', notes:''" "dq \<notin> set []"
      by (simp_all add: dq_def)
    from clause_literals [OF this pl(2)] False show ?thesis
      by simp
  qed
  have props: "string_literals
      ((''    set newToDo to make new to do with properties {name:'' @ dq # title @ dq # [])
           @ (if notes \<noteq> [] then '', notes:'' @ dq # notes @ dq # [] else [])
           @ if_set due_date (\<lambda>x. '', due date:date('' @ dq # x @ dq # '')'')
           @ if_set area (\<lambda>x. '', area:'' @ dq # x @ dq # [])
           @ if_set project (\<lambda>x. '', project:'' @ dq # x @ dq # [])
           @ ''}'') =
      Some ([title] @ (if notes \<noteq> [] then [notes] else []) @ if_set due_date (\<lambda>x. [x])
              @ if_set area (\<lambda>x. [x]) @ if_set project (\<lambda>x. [x]) @ [])"
    by (intro literals_append2 clause_literals optional_literals notes_clause literals_none pl)
       (simp_all add: dq_def)
  have tag_lines: "list_all2 (\<lambda>l x. string_literals l = Some x)
      (if_set tags (\<lambda>x.
            [''    repeat with tagName in {'' @ dq # py_join (dq # '', '' @ [dq]) x @ dq # ''}'',
             ''        set tag of newToDo to tagName'',
             ''    end repeat'']))
      (if_set tags (\<lambda>x. [x, [], []]))"
  proof (cases tags)
    case None
    then show ?thesis by (simp add: if_set_def)
  next
    case (Some x)
    show ?thesis
    proof (cases "x = []")
      case True
      with Some show ?thesis by (simp add: if_set_def)
    next
      case False
      have "string_literals (''    repeat with tagName in {'' @ (dq # py_join (dq # '', '' @ [dq]) x @ dq # ''}'')) =
            Some x"
        using tags_literals [OF False pl(6) [OF Some], of "''}''"]
        by (subst literals_skip) (simp_all add: dq_def)
      with Some False show ?thesis
        by (simp add: if_set_def literals_none dq_def)
    qed
  qed
  have "list_all2 (\<lambda>l x. string_literals l = Some x)
      ([''tell application '' @ dq # ''Things3'' @ [dq],
         (''    set newToDo to make new to do with properties {name:'' @ dq # title @ dq # [])
           @ (if notes \<noteq> [] then '', notes:'' @ dq # notes @ dq # [] else [])
           @ if_set due_date (\<lambda>x. '', due date:date('' @ dq # x @ dq # '')'')
           @ if_set area (\<lambda>x. '', area:'' @ dq # x @ dq # [])
           @ if_set project (\<lambda>x. '', project:'' @ dq # x @ dq # [])
           @ ''}'']
        @ if_set tags (\<lambda>x.
            [''    repeat with tagName in {'' @ dq # py_join (dq # '', '' @ [dq]) x @ dq # ''}'',
             ''        set tag of newToDo to tagName'',
             ''    end repeat''])
        @ [''    return id of newToDo'', ''end tell''])
      ([[''Things3''],
        [title] @ (if notes \<noteq> [] then [notes] else []) @ if_set due_date (\<lambda>x. [x])
              @ if_set area (\<lambda>x. [x]) @ if_set project (\<lambda>x. [x]) @ []]
        @ if_set tags (\<lambda>x. [x, [], []])
        @ [[], []])"
    using head props
    by (intro list_all2_appendI tag_lines) (simp_all add: literals_none dq_def)
  from literals_join [OF this]
  have "string_literals (add_task_script title notes due_date area project tags) =
      Some (concat ([[''Things3''],
        [title] @ (if notes \<noteq> [] then [notes] else []) @ if_set due_date (\<lambda>x. [x])
              @ if_set area (\<lambda>x. [x]) @ if_set project (\<lambda>x. [x]) @ []]
        @ if_set tags (\<lambda>x. [x, [], []])
        @ [[], []]))"
    unfolding add_task_script_shape by (simp add: dq_def)
  moreover have "concat (if_set tags (\<lambda>x. [x, [], []])) = if_set tags (\<lambda>x. x)"
    by (simp add: if_set_def split: option.splits)
  ultimately show ?thesis by simp
qed

lemma optional_lines:
  assumes "\<And>x. v = Some x \<Longrightarrow> x \<noteq> [] \<Longrightarrow> list_all2 P (f x) (g x)"
  shows "list_all2 P (if_set v f) (if_set v g)"
  using assms by (cases v) (simp_all add: if_set_def)

lemma update_task_script_shape:
  \<open>update_task_script task_identifier title notes due_date tags =
     py_join newline
       ([''tell application "Things3"'',
         ''    try'',
         ''        set targetToDo to to do id '' @ dq # task_identifier @ dq # [],
         ''    on error'',
         ''        try'',
         ''            set targetToDo to to do '' @ dq # task_identifier @ dq # [],
         ''        on error'',
         ''            return "Task not found"'',
         ''        end try'',
         ''    end try'',
         ''    '',
         ''    set updateResult to ""'']
        @ if_set title (\<lambda>x.
            [''    set name of targetToDo to '' @ dq # x @ dq # [],
             ''    set updateResult to updateResult & "Title updated. "''])
        @ if_set notes (\<lambda>x.
            [''    set notes of targetToDo to '' @ dq # x @ dq # [],
             ''    set updateResult to updateResult & "Notes updated. "''])
        @ if_set due_date (\<lambda>x.
            [''    set due date of targetToDo to date('' @ dq # x @ dq # '')'',
             ''    set updateResult to updateResult & "Due date updated. "''])
        @ [''    return updateResult'',
           ''end tell''])\<close>
  by (simp add: update_task_script_def dq_def)

lemma update_task_literals:
  assumes "plain task_identifier"
    and "\<forall>s \<in> set (if_set title (\<lambda>x. [x]) @ if_set notes (\<lambda>x. [x]) @ if_set due_date (\<lambda>x. [x])). plain s"
  shows "string_literals (update_task_script task_identifier title notes due_date tags) =
     Some ([''Things3'', task_identifier, task_identifier, ''Task not found'', []]
             @ if_set title (\<lambda>x. [x, ''Title updated. ''])
             @ if_set notes (\<lambda>x. [x, ''Notes updated. ''])
             @ if_set due_date (\<lambda>x. [x, ''Due date updated. '']))"
proof -
  have pt: "plain x" if "title = Some x" "x \<noteq> []" for x
    using assms(2) that by (simp add: if_set_def)
  have pn: "plain x" if "notes = Some x" "x \<noteq> []" for x
    using assms(2) that by (simp add: if_set_def)
  have pd: "plain x" if "due_date = Some x" "x \<noteq> []" for x
    using assms(2) that by (simp add: if_set_def)
  have fixed:
    "string_literals (''tell application '' @ dq # ''Things3'' @ [dq]) = Some [''Things3'']"
    "string_literals (''            return '' @ dq # ''Task not found'' @ [dq]) = Some [''Task not found'']"
    "string_literals (''    set updateResult to '' @ [dq, dq]) = Some [[]]"
    "string_literals (''    set updateResult to updateResult & '' @ dq # ''Title updated. '' @ [dq]) =
       Some [''Title updated. '']"
    "string_literals (''    set updateResult to updateResult & '' @ dq # ''Notes updated. '' @ [dq]) =
       Some [''Notes updated. '']"
    "string_literals (''    set updateResult to updateResult & '' @ dq # ''Due date updated. '' @ [dq]) =
       Some [''Due date updated. '']"
    by code_simp+
  have bare:
    "string_literals ''    try'' = Some []"
    "string_literals ''    on error'' = Some []"
    "string_literals ''        try'' = Some []"
    "string_literals ''        on error'' = Some []"
    "string_literals ''        end try'' = Some []"
    "string_literals ''    end try'' = Some []"
    "string_literals ''    '' = Some []"
    "string_literals ''    return updateResult'' = Some []"
    "string_literals ''end tell'' = Some []"
    by code_simp+
  have by_id: "string_literals (''        set targetToDo to to do id '' @ dq # task_identifier @ dq # []) =
      Some [task_identifier]"
    by (rule clause_literals [OF _ _ assms(1)]) (simp_all add: dq_def)
  have by_title: "string_literals (''            set targetToDo to to do '' @ dq # task_identifier @ dq # []) =
      Some [task_identifier]"
    by (rule clause_literals [OF _ _ assms(1)]) (simp_all add: dq_def)
  have set_title: "string_literals (''    set name of targetToDo to '' @ dq # x @ dq # []) = Some [x]"
    if "plain x" for x
    by (rule clause_literals [OF _ _ that]) (simp_all add: dq_def)
  have set_notes: "string_literals (''    set notes of targetToDo to '' @ dq # x @ dq # []) = Some [x]"
    if "plain x" for x
    by (rule clause_literals [OF _ _ that]) (simp_all add: dq_def)
  have set_due: "string_literals (''    set due date of targetToDo to date('' @ dq # x @ dq # '')'') = Some [x]"
    if "plain x" for x
    by (rule clause_literals [OF _ _ that]) (simp_all add: dq_def)
  have title_lines: "list_all2 (\<lambda>l x. string_literals l = Some x)
      (if_set title (\<lambda>x.
            [''    set name of targetToDo to '' @ dq # x @ dq # [],
             ''    set updateResult to updateResult & '' @ dq # ''Title updated. '' @ [dq]]))
      (if_set title (\<lambda>x. [[x], [''Title updated. '']]))"
    by (intro optional_lines list.rel_intros set_title pt fixed)
  have notes_lines: "list_all2 (\<lambda>l x. string_literals l = Some x)
      (if_set notes (\<lambda>x.
            [''    set notes of targetToDo to '' @ dq # x @ dq # [],
             ''    set updateResult to updateResult & '' @ dq # ''Notes updated. '' @ [dq]]))
      (if_set notes (\<lambda>x. [[x], [''Notes updated. '']]))"
    by (intro optional_lines list.rel_intros set_notes pn fixed)
  have due_lines: "list_all2 (\<lambda>l x. string_literals l = Some x)
      (if_set due_date (\<lambda>x.
            [''    set due date of targetToDo to date('' @ dq # x @ dq # '')'',
             ''    set updateResult to updateResult & '' @ dq # ''Due date updated. '' @ [dq]]))
      (if_set due_date (\<lambda>x. [[x], [''Due date updated. '']]))"
    by (intro optional_lines list.rel_intros set_due pd fixed)
  have first_lines: "list_all2 (\<lambda>l x. string_literals l = Some x)
      [''tell application '' @ dq # ''Things3'' @ [dq],
         ''    try'',
         ''        set targetToDo to to do id '' @ dq # task_identifier @ dq # [],
         ''    on error'',
         ''        try'',
         ''            set targetToDo to to do '' @ dq # task_identifier @ dq # [],
         ''        on error'',
         ''            return '' @ dq # ''Task not found'' @ [dq],
         ''        end try'',
         ''    end try'',
         ''    '',
         ''    set updateResult to '' @ [dq, dq]]
      [[''Things3''], [], [task_identifier], [], [], [task_identifier], [], [''Task not found''],
        [], [], [], [[]]]"
    by (intro list.rel_intros fixed bare by_id by_title)
  have last_lines: "list_all2 (\<lambda>l x. string_literals l = Some x)
      [''    return updateResult'', ''end tell''] [[], []]"
    by (intro list.rel_intros bare)
  have "list_all2 (\<lambda>l x. string_literals l = Some x)
      ([''tell application '' @ dq # ''Things3'' @ [dq],
         ''    try'',
         ''        set targetToDo to to do id '' @ dq # task_identifier @ dq # [],
         ''    on error'',
         ''        try'',
         ''            set targetToDo to to do '' @ dq # task_identifier @ dq # [],
         ''        on error'',
         ''            return '' @ dq # ''Task not found'' @ [dq],
         ''        end try'',
         ''    end try'',
         ''    '',
         ''    set updateResult to '' @ [dq, dq]]
        @ if_set title (\<lambda>x.
            [''    set name of targetToDo to '' @ dq # x @ dq # [],
             ''    set updateResult to updateResult & '' @ dq # ''Title updated. '' @ [dq]])
        @ if_set notes (\<lambda>x.
            [''    set notes of targetToDo to '' @ dq # x @ dq # [],
             ''    set updateResult to updateResult & '' @ dq # ''Notes updated. '' @ [dq]])
        @ if_set due_date (\<lambda>x.
            [''    set due date of targetToDo to date('' @ dq # x @ dq # '')'',
             ''    set updateResult to updateResult & '' @ dq # ''Due date updated. '' @ [dq]])
        @ [''    return updateResult'', ''end tell''])
      ([[''Things3''], [], [task_identifier], [], [], [task_identifier], [], [''Task not found''],
        [], [], [], [[]]]
        @ if_set title (\<lambda>x. [[x], [''Title updated. '']])
        @ if_set notes (\<lambda>x. [[x], [''Notes updated. '']])
        @ if_set due_date (\<lambda>x. [[x], [''Due date updated. '']])
        @ [[], []])"
    by (intro list_all2_appendI first_lines title_lines notes_lines due_lines last_lines)
  from literals_join [OF this]
  have "string_literals (update_task_script task_identifier title notes due_date tags) =
      Some (concat ([[''Things3''], [], [task_identifier], [], [], [task_identifier], [], [''Task not found''],
        [], [], [], [[]]]
        @ if_set title (\<lambda>x. [[x], [''Title updated. '']])
        @ if_set notes (\<lambda>x. [[x], [''Notes updated. '']])
        @ if_set due_date (\<lambda>x. [[x], [''Due date updated. '']])
        @ [[], []]))"
    unfolding update_task_script_shape by (simp add: dq_def)
  moreover have "concat (if_set v (\<lambda>x. [[x], [m]])) = if_set v (\<lambda>x. [x, m])" for v :: "string option" and m
    by (simp add: if_set_def split: option.splits)
  ultimately show ?thesis by simp
qed

lemma unescape_backslash: "unescape d = Some backslash \<Longrightarrow> d = backslash"
  by (simp add: unescape_def dq_def backslash_def split: if_splits)

lemma read_back_backslashes:
  "read_chars (u @ dq # rest) = Some (w, r) \<Longrightarrow> w \<noteq> replicate (Suc k) backslash @ u"
proof (induction "length u" arbitrary: u w k rule: less_induct)
  case less
  show ?case
  proof (cases u)
    case Nil
    with less.prems show ?thesis
      by (simp add: read_chars_quote)
  next
    case (Cons c u1)
    show ?thesis
    proof (cases "c = dq")
      case True
      with Cons less.prems show ?thesis
        by (simp add: read_chars_quote)
    next
      case no_quote: False
      show ?thesis
      proof (cases "c = backslash")
        case False
        with no_quote Cons less.prems have "\<exists>w'. w = c # w'"
          by (auto simp: read_chars_step)
        with False show ?thesis
          by auto
      next
        case escape: True
        show ?thesis
        proof (cases u1)
          case Nil
          with escape no_quote Cons less.prems have "\<exists>w'. w = dq # w'"
            by (cases rest) (auto simp: unescape_def)
          then show ?thesis
            by (auto simp: dq_def backslash_def)
        next
          case inner: (Cons d u2)
          have shape: "u @ dq # rest = c # d # (u2 @ dq # rest)"
            by (simp add: Cons inner)
          from less.prems obtain e w' where
            e: "unescape d = Some e" and w: "w = e # w'"
            and w': "read_chars (u2 @ dq # rest) = Some (w', r)"
            unfolding shape using escape no_quote
            by (auto split: option.splits)
          show ?thesis
          proof
            assume eq: "w = replicate (Suc k) backslash @ u"
            with w have "e = backslash"
              by simp
            with e have d: "d = backslash"
              by (simp add: unescape_backslash)
            from eq w have "w' = replicate k backslash @ u"
              by simp
            with d escape have "w' = replicate (Suc (Suc k)) backslash @ u2"
              by (simp add: Cons inner replicate_app_Cons_same)
            moreover have "length u2 < length u"
              by (simp add: Cons inner)
            ultimately show False
              using less.hyps [OF _ w'] by blast
          qed
        qed
      qed
    qed
  qed
qed

lemma read_back_exact:
  "read_chars (t @ dq # rest) = Some (t, r) \<Longrightarrow> plain t"
proof (induction t)
  case Nil
  show ?case by (simp add: plain_def)
next
  case (Cons c t1)
  have no_quote: "c \<noteq> dq"
  proof
    assume "c = dq"
    with Cons.prems show False
      by (simp add: read_chars_quote)
  qed
  have no_backslash: "c \<noteq> backslash"
  proof
    assume escape: "c = backslash"
    show False
    proof (cases t1)
      case Nil
      with escape no_quote Cons.prems show False
        by (cases rest) (auto simp: unescape_def dq_def backslash_def)
    next
      case inner: (Cons d t2)
      have shape: "(c # t1) @ dq # rest = c # d # (t2 @ dq # rest)"
        by (simp add: inner)
      from Cons.prems obtain e w' where
        e: "unescape d = Some e" and w: "c # t1 = e # w'"
        and w': "read_chars (t2 @ dq # rest) = Some (w', r)"
        unfolding shape using escape no_quote
        by (auto split: option.splits)
      from w inner have "w' = d # t2"
        by simp
      moreover from w escape e have "d = backslash"
        by (simp add: unescape_backslash)
      ultimately have "w' = replicate (Suc 0) backslash @ t2"
        by simp
      with read_back_backslashes [OF w', of 0] show False
        by blast
    qed
  qed
  from Cons.prems no_quote no_backslash
  have "read_chars (t1 @ dq # rest) = Some (t1, r)"
    by (auto simp: read_chars_step)
  then have "plain t1"
    by (rule Cons.IH)
  with no_quote no_backslash show ?case
    by (auto simp: plain_def)
qed

lemma add_task_script_name:
  \<open>\<exists>rest.
     drop (length (''tell application "Things3"'' @ newline
                 @ ''    set newToDo to make new to do with properties {name:"''))
       (add_task_script title notes due_date area project tags) = title @ dq # rest\<close>
proof -
  define rest where "rest =
      (if notes \<noteq> [] then '', notes:'' @ dq # notes @ dq # [] else [])
           @ if_set due_date (\<lambda>x. '', due date:date('' @ dq # x @ dq # '')'')
           @ if_set area (\<lambda>x. '', area:'' @ dq # x @ dq # [])
           @ if_set project (\<lambda>x. '', project:'' @ dq # x @ dq # [])
           @ ''}'' @ newline
           @ py_join newline
               (if_set tags (\<lambda>x.
                  [''    repeat with tagName in {'' @ dq # py_join (dq # '', '' @ [dq]) x @ dq # ''}'',
                   ''        set tag of newToDo to tagName'',
                   ''    end repeat''])
                @ [''    return id of newToDo'', ''end tell''])"
  define front where \<open>front = ''tell application "Things3"'' @ newline
                 @ ''    set newToDo to make new to do with properties {name:"''\<close>
  have "add_task_script title notes due_date area project tags =
        front @ (title @ dq # rest)"
    unfolding add_task_script_shape rest_def front_def
    by (simp add: py_join_Cons dq_def)
  then have "drop (length front) (add_task_script title notes due_date area project tags) =
        title @ dq # rest"
    by simp
  then show ?thesis
    unfolding front_def by (rule exI)
qed

lemma add_task_title_cut:
  assumes "plain p"
  shows \<open>map_option fst
     (read_chars
        (drop (length (''tell application "Things3"'' @ newline
                 @ ''    set newToDo to make new to do with properties {name:"''))
           (add_task_script (p @ dq # r) notes due_date area project tags))) = Some p\<close>
proof -
  from add_task_script_name [of "p @ dq # r" "notes" due_date area project tags]
  obtain rest where
    \<open>drop (length (''tell application "Things3"'' @ newline
                 @ ''    set newToDo to make new to do with properties {name:"''))
       (add_task_script (p @ dq # r) notes due_date area project tags) =
     p @ dq # (r @ dq # rest)\<close>
    by auto
  with assms show ?thesis
    by (simp only: read_chars_plain option.map fst_conv)
qed

lemma add_task_title_read_back:
  \<open>map_option fst
     (read_chars
        (drop (length (''tell application "Things3"'' @ newline
                 @ ''    set newToDo to make new to do with properties {name:"''))
           (add_task_script title notes due_date area project tags))) = Some title
   \<longleftrightarrow> plain title\<close>
proof -
  from add_task_script_name [of title "notes" due_date area project tags]
  obtain rest where rest:
    \<open>drop (length (''tell application "Things3"'' @ newline
                 @ ''    set newToDo to make new to do with properties {name:"''))
       (add_task_script title notes due_date area project tags) = title @ dq # rest\<close>
    by auto
  show ?thesis
  proof
    assume "plain title"
    then show \<open>map_option fst
     (read_chars
        (drop (length (''tell application "Things3"'' @ newline
                 @ ''    set newToDo to make new to do with properties {name:"''))
           (add_task_script title notes due_date area project tags))) = Some title\<close>
      by (simp only: rest read_chars_plain option.map fst_conv)
  next
    assume \<open>map_option fst
     (read_chars
        (drop (length (''tell application "Things3"'' @ newline
                 @ ''    set newToDo to make new to do with properties {name:"''))
           (add_task_script title notes due_date area project tags))) = Some title\<close>
    then have "map_option fst (read_chars (title @ dq # rest)) = Some title"
      by (simp only: rest)
    then obtain r where "read_chars (title @ dq # rest) = Some (title, r)"
      by auto
    then show "plain title"
      by (rule read_back_exact)
  qed
qed

text \<open>
  C1, as the code has it. The builder puts every string between two quote characters as
  it is: nothing is escaped. When the supplied strings hold neither a quote nor a
  backslash, the literals read back from the script of \<open>add_task\<close> and of
  \<open>update_task\<close> are exactly the strings that were put in, in order, between those of
  the template. The literal read at the place of the name in the script of \<open>add_task\<close>
  is the title itself exactly when the title holds neither a quote nor a backslash: no
  title with a quote is read back as itself. When the part of a title before a quote
  holds neither a quote nor a backslash, the literal read there is that part.
\<close>

theorem literals_round_trip:
  \<open>((\<forall>s \<in> set (supplied title notes due_date area project tags). plain s) \<longrightarrow>
      string_literals (add_task_script title notes due_date area project tags) =
        Some ([''Things3'', title] @ (if notes \<noteq> [] then [notes] else [])
                @ if_set due_date (\<lambda>x. [x]) @ if_set area (\<lambda>x. [x])
                @ if_set project (\<lambda>x. [x]) @ if_set tags (\<lambda>x. x))) \<and>
   (plain task_identifier \<and>
    (\<forall>s \<in> set (if_set new_title (\<lambda>x. [x]) @ if_set new_notes (\<lambda>x. [x])
                  @ if_set new_due_date (\<lambda>x. [x])). plain s) \<longrightarrow>
      string_literals (update_task_script task_identifier new_title new_notes new_due_date new_tags) =
        Some ([''Things3'', task_identifier, task_identifier, ''Task not found'', []]
                @ if_set new_title (\<lambda>x. [x, ''Title updated. ''])
                @ if_set new_notes (\<lambda>x. [x, ''Notes updated. ''])
                @ if_set new_due_date (\<lambda>x. [x, ''Due date updated. '']))) \<and>
   (plain p \<longrightarrow>
      map_option fst
        (read_chars
           (drop (length (''tell application "Things3"'' @ newline
                    @ ''    set newToDo to make new to do with properties {name:"''))
              (add_task_script (p @ dq # r) notes due_date area project tags))) = Some p) \<and>
   (map_option fst
      (read_chars
         (drop (length (''tell application "Things3"'' @ newline
                  @ ''    set newToDo to make new to do with properties {name:"''))
            (add_task_script title notes due_date area project tags))) = Some title
    \<longleftrightarrow> plain title)\<close>
  using add_task_literals update_task_literals add_task_title_cut add_task_title_read_back
  by (intro conjI impI) blast+

lemma plain_examples:
  "\<forall>s \<in> set (supplied ''Buy milk'' ''2 litres'' (Some ''2025-01-01'') None None
                 (Some [''home'', ''shop''])). plain s"
  "plain ''T42''"
  "\<forall>s \<in> set (if_set (Some ''Buy oat milk'') (\<lambda>x. [x]) @ if_set None (\<lambda>x. [x])
                @ if_set (Some ''2025-01-02'') (\<lambda>x. [x])). plain s"
  "plain ''say ''"
  "\<not> plain (''say '' @ dq # ''hi'' @ [dq])"
  by (simp_all add: supplied_def if_set_def plain_def dq_def backslash_def)

theorem literals_round_trip_witness:
  \<open>string_literals
     (add_task_script ''Buy milk'' ''2 litres'' (Some ''2025-01-01'') None None
        (Some [''home'', ''shop''])) =
     Some [''Things3'', ''Buy milk'', ''2 litres'', ''2025-01-01'', ''home'', ''shop''] \<and>
   string_literals
     (update_task_script ''T42'' (Some ''Buy oat milk'') None (Some ''2025-01-02'') None) =
     Some [''Things3'', ''T42'', ''T42'', ''Task not found'', [], ''Buy oat milk'',
           ''Title updated. '', ''2025-01-02'', ''Due date updated. ''] \<and>
   map_option fst
     (read_chars
        (drop (length (''tell application "Things3"'' @ newline
                 @ ''    set newToDo to make new to do with properties {name:"''))
           (add_task_script (''say '' @ dq # ''hi'' @ [dq]) [] None None None None))) =
     Some ''say '' \<and>
   map_option fst
     (read_chars
        (drop (length (''tell application "Things3"'' @ newline
                 @ ''    set newToDo to make new to do with properties {name:"''))
           (add_task_script (''say '' @ dq # ''hi'' @ [dq]) [] None None None None))) \<noteq>
     Some (''say '' @ dq # ''hi'' @ [dq])\<close>
proof (intro conjI)
  from literals_round_trip
         [of "''Buy milk''" "''2 litres''" "Some ''2025-01-01''" None None "Some [''home'', ''shop'']",
          THEN conjunct1, THEN mp, OF plain_examples(1)]
  show \<open>string_literals
     (add_task_script ''Buy milk'' ''2 litres'' (Some ''2025-01-01'') None None
        (Some [''home'', ''shop''])) =
     Some [''Things3'', ''Buy milk'', ''2 litres'', ''2025-01-01'', ''home'', ''shop'']\<close>
    by (simp add: if_set_def)
  from literals_round_trip
         [THEN conjunct2, THEN conjunct1, THEN mp, OF conjI, OF plain_examples(2) plain_examples(3),
          of None]
  show \<open>string_literals
     (update_task_script ''T42'' (Some ''Buy oat milk'') None (Some ''2025-01-02'') None) =
     Some [''Things3'', ''T42'', ''T42'', ''Task not found'', [], ''Buy oat milk'',
           ''Title updated. '', ''2025-01-02'', ''Due date updated. '']\<close>
    by (simp add: if_set_def)
  from literals_round_trip
         [THEN conjunct2, THEN conjunct2, THEN conjunct1, THEN mp, OF plain_examples(4),
          of "''hi'' @ [dq]" "[]" None None None None]
  show \<open>map_option fst
     (read_chars
        (drop (length (''tell application "Things3"'' @ newline
                 @ ''    set newToDo to make new to do with properties {name:"''))
           (add_task_script (''say '' @ dq # ''hi'' @ [dq]) [] None None None None))) =
     Some ''say ''\<close>
    by simp
  from literals_round_trip
         [THEN conjunct2, THEN conjunct2, THEN conjunct2,
          of "''say '' @ dq # ''hi'' @ [dq]" "[]" None None None None]
       plain_examples(5)
  show \<open>map_option fst
     (read_chars
        (drop (length (''tell application "Things3"'' @ newline
                 @ ''    set newToDo to make new to do with properties {name:"''))
           (add_task_script (''say '' @ dq # ''hi'' @ [dq]) [] None None None None))) \<noteq>
     Some (''say '' @ dq # ''hi'' @ [dq])\<close>
    by (simp only: not_False_eq_True)
qed

text \<open>
  C1 as stated fails: the title \<open>say "hi"\<close> is rendered unescaped, and the literals read
  back are \<open>say \<close> and the empty string; notes with one quote leave a literal open, and
  the same happens in \<open>update_task\<close>. A backslash before the quote changes what is read:
  the title \<open>a\"b\<close> is read back as \<open>a"b\<close>.
\<close>

theorem quote_ends_literal:
  \<open>add_task_script ''say "hi"'' [] None None None None =
     ''tell application "Things3"'' @ newline
       @ ''    set newToDo to make new to do with properties {name:"say "hi""}'' @ newline
       @ ''    return id of newToDo'' @ newline
       @ ''end tell'' \<and>
   string_literals (add_task_script ''say "hi"'' [] None None None None) =
     Some [''Things3'', ''say '', []] \<and>
   string_literals (add_task_script ''milk'' ''2" bottle'' None None None None) = None \<and>
   string_literals (update_task_script ''T42'' (Some ''say "hi"'') None None None) =
     Some [''Things3'', ''T42'', ''T42'', ''Task not found'', [], ''say '', [], ''Title updated. ''] \<and>
   string_literals (add_task_script (''a'' @ [backslash, dq] @ ''b'') [] None None None None) =
     Some [''Things3'', ''a'' @ [dq] @ ''b'']\<close>
  by code_simp

section \<open>Clauses of absent fields\<close>

lemma sublist_split:
  assumes "q \<notin> set k"
  shows "sublist k (a @ q # b) \<longleftrightarrow> sublist k a \<or> sublist k b"
proof
  assume "sublist k (a @ q # b)"
  then consider "sublist k a" | "sublist k (q # b)"
    | k1 k2 where "k = k1 @ k2" "suffix k1 a" "prefix k2 (q # b)"
    by (auto simp: sublist_append)
  then show "sublist k a \<or> sublist k b"
  proof cases
    case 1
    then show ?thesis by simp
  next
    case 2
    then have "prefix k (q # b) \<or> sublist k b"
      by (simp add: sublist_Cons_right)
    moreover have "k = []" if "prefix k (q # b)"
      using that assms by (cases k) auto
    ultimately show ?thesis by auto
  next
    case 3
    from 3(1,3) assms have "k2 = []"
      by (cases k2) auto
    with 3 show ?thesis by auto
  qed
next
  assume "sublist k a \<or> sublist k b"
  then show "sublist k (a @ q # b)"
  proof
    assume "sublist k a"
    then show ?thesis by (auto simp: sublist_append)
  next
    assume "sublist k b"
    then have "sublist k (q # b)" by (simp add: sublist_Cons_right)
    then show ?thesis by (auto simp: sublist_append)
  qed
qed

lemma sublist_skip_char: "q \<notin> set k \<Longrightarrow> k \<noteq> [] \<Longrightarrow> sublist k (q # b) \<longleftrightarrow> sublist k b"
  using sublist_split [of q k "[]" b] by simp

lemma quoted_free:
  "dq \<notin> set k \<Longrightarrow> \<not> sublist k pre \<Longrightarrow> \<not> sublist k x \<Longrightarrow> \<not> sublist k rest \<Longrightarrow>
   \<not> sublist k (pre @ dq # x @ dq # rest)"
  by (simp add: sublist_split)

lemma optional_free:
  assumes "dq \<notin> set k" "\<not> sublist k (post @ rest)" "\<not> sublist k rest"
    and "\<And>x. v = Some x \<Longrightarrow> x \<noteq> [] \<Longrightarrow> \<not> sublist k pre \<and> \<not> sublist k x"
  shows "\<not> sublist k (if_set v (\<lambda>x. pre @ dq # x @ dq # post) @ rest)"
proof (cases "truthy v")
  case False
  then have "if_set v (\<lambda>x. pre @ dq # x @ dq # post) = []"
    by (simp add: if_set_def truthy_def split: option.splits)
  with assms(3) show ?thesis by simp
next
  case True
  then obtain x where x: "v = Some x" "x \<noteq> []"
    by (auto simp: truthy_def split: option.splits)
  with assms(4) have "\<not> sublist k pre" "\<not> sublist k x" by blast+
  from quoted_free [OF assms(1) this assms(2)] x show ?thesis
    by (simp add: if_set_def)
qed

lemma joined_free:
  assumes "CHR 0x0A \<notin> set k" "k \<noteq> []" "\<forall>l \<in> set ls. \<not> sublist k l"
  shows "\<not> sublist k (py_join newline ls)"
  using assms(3)
proof (induction ls)
  case Nil
  with assms(2) show ?case by simp
next
  case (Cons l ls)
  show ?case
  proof (cases "ls = []")
    case True
    with Cons.prems show ?thesis by simp
  next
    case False
    with Cons have "\<not> sublist k l" "\<not> sublist k (py_join newline ls)" by simp_all
    with False assms(1) show ?thesis
      by (simp add: py_join_Cons newline_def sublist_split)
  qed
qed

lemma tags_free:
  assumes "dq \<notin> set k" "k \<noteq> []" "\<not> sublist k '', ''" "\<forall>t \<in> set x. \<not> sublist k t"
  shows "\<not> sublist k (py_join (dq # '', '' @ [dq]) x)"
  using assms(4)
proof (induction x)
  case Nil
  with assms(2) show ?case by simp
next
  case (Cons t x)
  show ?case
  proof (cases "x = []")
    case True
    with Cons.prems show ?thesis by simp
  next
    case False
    with Cons have a: "\<not> sublist k t" "\<not> sublist k (py_join (dq # '', '' @ [dq]) x)" by simp_all
    have "py_join (dq # '', '' @ [dq]) (t # x) =
          t @ dq # ('', '' @ dq # py_join (dq # '', '' @ [dq]) x)"
      using False by (simp add: py_join_Cons)
    moreover have "sublist k (t @ dq # ('', '' @ dq # py_join (dq # '', '' @ [dq]) x)) \<longleftrightarrow>
          sublist k t \<or> sublist k ('', '' @ dq # py_join (dq # '', '' @ [dq]) x)"
      by (rule sublist_split [OF assms(1)])
    moreover have "sublist k ('', '' @ dq # py_join (dq # '', '' @ [dq]) x) \<longleftrightarrow>
          sublist k '', '' \<or> sublist k (py_join (dq # '', '' @ [dq]) x)"
      by (rule sublist_split [OF assms(1)])
    ultimately show ?thesis
      using a assms(3) by (simp only:) blast
  qed
qed

lemma keyword_chars:
  "dq \<notin> set (keyword f)" "CHR 0x0A \<notin> set (keyword f)" "CHR '')'' \<notin> set (keyword f)"
  "keyword f \<noteq> []"
  by (cases f; simp add: dq_def)+

lemma keyword_not_in_template:
  \<open>\<not> sublist (keyword f) ''tell application "Things3"''\<close>
  "\<not> sublist (keyword f) ''    set newToDo to make new to do with properties {name:''"
  "\<not> sublist (keyword f) ''    set newProject to make new project with properties {name:''"
  "\<not> sublist (keyword f) ''}''"
  "\<not> sublist (keyword f) ''    return id of newToDo''"
  "\<not> sublist (keyword f) ''    return id of newProject''"
  "\<not> sublist (keyword f) ''    set start date of newProject to current date''"
  "\<not> sublist (keyword f) ''end tell''"
  "\<not> sublist (keyword f) '', ''"
  by (cases f; simp add: sublist_code(3))+

lemma keyword_not_in_other_clause:
  "f \<noteq> Notes \<Longrightarrow> \<not> sublist (keyword f) '', notes:''"
  "f \<noteq> DueDate \<Longrightarrow> \<not> sublist (keyword f) '', due date:date(''"
  "f \<noteq> Area \<Longrightarrow> \<not> sublist (keyword f) '', area:''"
  "f \<noteq> Project \<Longrightarrow> \<not> sublist (keyword f) '', project:''"
  "f \<noteq> Tags \<Longrightarrow> \<not> sublist (keyword f) ''    repeat with tagName in {''"
  "f \<noteq> Tags \<Longrightarrow> \<not> sublist (keyword f) ''        set tag of newToDo to tagName''"
  "f \<noteq> Tags \<Longrightarrow> \<not> sublist (keyword f) ''    end repeat''"
  by (cases f; simp add: sublist_code(3))+

lemma add_task_keyword_free:
  assumes ab: "absent f notes due_date area project tags"
    and free: "\<forall>s \<in> set (supplied title notes due_date area project tags). \<not> sublist (keyword f) s"
  shows "\<not> sublist (keyword f) (add_task_script title notes due_date area project tags)"
proof -
  note k = keyword_chars [of f]
  note fixed = keyword_not_in_template [of f]
  note other = keyword_not_in_other_clause [of f]
  have ft: "\<not> sublist (keyword f) title" and fn: "\<not> sublist (keyword f) notes"
    using free by (simp_all add: supplied_def)
  have fd: "\<not> sublist (keyword f) '', due date:date('' \<and> \<not> sublist (keyword f) x"
    if "due_date = Some x" "x \<noteq> []" for x
    using free ab that other(2) by (cases f) (simp_all add: supplied_def if_set_def truthy_def)
  have fa: "\<not> sublist (keyword f) '', area:'' \<and> \<not> sublist (keyword f) x"
    if "area = Some x" "x \<noteq> []" for x
    using free ab that other(3) by (cases f) (simp_all add: supplied_def if_set_def truthy_def)
  have fp: "\<not> sublist (keyword f) '', project:'' \<and> \<not> sublist (keyword f) x"
    if "project = Some x" "x \<noteq> []" for x
    using free ab that other(4) by (cases f) (simp_all add: supplied_def if_set_def truthy_def)
  have r5: "\<not> sublist (keyword f) ''}''"
    by (rule fixed)
  have r4: "\<not> sublist (keyword f)
      (if_set project (\<lambda>x. '', project:'' @ dq # x @ dq # []) @ ''}'')"
    by (rule optional_free [OF k(1) _ _ fp]) (use r5 in simp_all)
  have r3: "\<not> sublist (keyword f)
      (if_set area (\<lambda>x. '', area:'' @ dq # x @ dq # [])
         @ if_set project (\<lambda>x. '', project:'' @ dq # x @ dq # []) @ ''}'')"
    by (rule optional_free [OF k(1) _ _ fa]) (use r4 in simp_all)
  have r2: "\<not> sublist (keyword f)
      (if_set due_date (\<lambda>x. '', due date:date('' @ dq # x @ dq # '')'')
         @ if_set area (\<lambda>x. '', area:'' @ dq # x @ dq # [])
         @ if_set project (\<lambda>x. '', project:'' @ dq # x @ dq # []) @ ''}'')"
    by (rule optional_free [OF k(1) _ _ fd]) (use r3 in \<open>simp_all add: sublist_skip_char k\<close>)
  have r1: "\<not> sublist (keyword f)
      ((if notes \<noteq> [] then '', notes:'' @ dq # notes @ dq # [] else [])
         @ if_set due_date (\<lambda>x. '', due date:date('' @ dq # x @ dq # '')'')
         @ if_set area (\<lambda>x. '', area:'' @ dq # x @ dq # [])
         @ if_set project (\<lambda>x. '', project:'' @ dq # x @ dq # []) @ ''}'')"
  proof (cases "notes = []")
    case True
    with r2 show ?thesis by simp
  next
    case False
    with ab have "f \<noteq> Notes" by auto
    from quoted_free [OF k(1) other(1) [OF this] fn r2] False show ?thesis
      by simp
  qed
  have props: "\<not> sublist (keyword f)
      ((''    set newToDo to make new to do with properties {name:'' @ dq # title @ dq # [])
         @ (if notes \<noteq> [] then '', notes:'' @ dq # notes @ dq # [] else [])
         @ if_set due_date (\<lambda>x. '', due date:date('' @ dq # x @ dq # '')'')
         @ if_set area (\<lambda>x. '', area:'' @ dq # x @ dq # [])
         @ if_set project (\<lambda>x. '', project:'' @ dq # x @ dq # []) @ ''}'')"
    using quoted_free [OF k(1) fixed(2) ft r1] by simp
  have tag_lines: "\<forall>l \<in> set (if_set tags (\<lambda>x.
            [''    repeat with tagName in {'' @ dq # py_join (dq # '', '' @ [dq]) x @ dq # ''}'',
             ''        set tag of newToDo to tagName'',
             ''    end repeat''])). \<not> sublist (keyword f) l"
  proof (cases "truthy tags")
    case False
    then show ?thesis
      by (simp add: if_set_def truthy_def split: option.splits)
  next
    case True
    then obtain x where x: "tags = Some x" "x \<noteq> []"
      by (auto simp: truthy_def split: option.splits)
    with ab True have nt: "f \<noteq> Tags" by auto
    from free x have "\<forall>t \<in> set x. \<not> sublist (keyword f) t"
      by (simp add: supplied_def if_set_def)
    from tags_free [OF k(1) k(4) fixed(9) this]
    have "\<not> sublist (keyword f)
        (''    repeat with tagName in {'' @ dq # py_join (dq # '', '' @ [dq]) x @ dq # ''}'')"
      by (intro quoted_free k(1) other(5) nt r5)
    with x other(6,7) [OF nt] show ?thesis
      by (simp add: if_set_def)
  qed
  have "\<forall>l \<in> set
      ([''tell application '' @ dq # ''Things3'' @ [dq],
         (''    set newToDo to make new to do with properties {name:'' @ dq # title @ dq # [])
           @ (if notes \<noteq> [] then '', notes:'' @ dq # notes @ dq # [] else [])
           @ if_set due_date (\<lambda>x. '', due date:date('' @ dq # x @ dq # '')'')
           @ if_set area (\<lambda>x. '', area:'' @ dq # x @ dq # [])
           @ if_set project (\<lambda>x. '', project:'' @ dq # x @ dq # [])
           @ ''}'']
        @ if_set tags (\<lambda>x.
            [''    repeat with tagName in {'' @ dq # py_join (dq # '', '' @ [dq]) x @ dq # ''}'',
             ''        set tag of newToDo to tagName'',
             ''    end repeat''])
        @ [''    return id of newToDo'', ''end tell'']). \<not> sublist (keyword f) l"
    using fixed(1,5,8) props tag_lines by (simp add: dq_def ball_Un)
  from joined_free [OF k(2) k(4) this] show ?thesis
    unfolding add_task_script_shape by (simp add: dq_def)
qed

lemma add_project_script_shape:
  \<open>add_project_script title notes area when =
     py_join newline
       ([''tell application "Things3"'',
         (''    set newProject to make new project with properties {name:'' @ dq # title @ dq # [])
           @ (if notes \<noteq> [] then '', notes:'' @ dq # notes @ dq # [] else [])
           @ if_set area (\<lambda>x. '', area:'' @ dq # x @ dq # [])
           @ ''}'']
        @ (if when = ''today'' then [''    set start date of newProject to current date''] else [])
        @ [''    return id of newProject'',
           ''end tell''])\<close>
  by (simp add: add_project_script_def dq_def)

lemma add_project_keyword_free:
  assumes ab: "absent f notes None area None None"
    and free: "\<forall>s \<in> set (supplied title notes None area None None). \<not> sublist (keyword f) s"
  shows "\<not> sublist (keyword f) (add_project_script title notes area when)"
proof -
  note k = keyword_chars [of f]
  note fixed = keyword_not_in_template [of f]
  note other = keyword_not_in_other_clause [of f]
  have ft: "\<not> sublist (keyword f) title" and fn: "\<not> sublist (keyword f) notes"
    using free by (simp_all add: supplied_def)
  have fa: "\<not> sublist (keyword f) '', area:'' \<and> \<not> sublist (keyword f) x"
    if "area = Some x" "x \<noteq> []" for x
    using free ab that other(3) by (cases f) (simp_all add: supplied_def if_set_def truthy_def)
  have r5: "\<not> sublist (keyword f) ''}''"
    by (rule fixed)
  have r3: "\<not> sublist (keyword f) (if_set area (\<lambda>x. '', area:'' @ dq # x @ dq # []) @ ''}'')"
    by (rule optional_free [OF k(1) _ _ fa]) (use r5 in simp_all)
  have r1: "\<not> sublist (keyword f)
      ((if notes \<noteq> [] then '', notes:'' @ dq # notes @ dq # [] else [])
         @ if_set area (\<lambda>x. '', area:'' @ dq # x @ dq # []) @ ''}'')"
  proof (cases "notes = []")
    case True
    with r3 show ?thesis by simp
  next
    case False
    with ab have "f \<noteq> Notes" by auto
    from quoted_free [OF k(1) other(1) [OF this] fn r3] False show ?thesis
      by simp
  qed
  have props: "\<not> sublist (keyword f)
      ((''    set newProject to make new project with properties {name:'' @ dq # title @ dq # [])
         @ (if notes \<noteq> [] then '', notes:'' @ dq # notes @ dq # [] else [])
         @ if_set area (\<lambda>x. '', area:'' @ dq # x @ dq # []) @ ''}'')"
    using quoted_free [OF k(1) fixed(3) ft r1] by simp
  have "\<forall>l \<in> set
      ([''tell application '' @ dq # ''Things3'' @ [dq],
         (''    set newProject to make new project with properties {name:'' @ dq # title @ dq # [])
           @ (if notes \<noteq> [] then '', notes:'' @ dq # notes @ dq # [] else [])
           @ if_set area (\<lambda>x. '', area:'' @ dq # x @ dq # [])
           @ ''}'']
        @ (if when = ''today'' then [''    set start date of newProject to current date''] else [])
        @ [''    return id of newProject'', ''end tell'']). \<not> sublist (keyword f) l"
    using fixed(1,6,7,8) props by (simp add: dq_def ball_Un)
  from joined_free [OF k(2) k(4) this] show ?thesis
    unfolding add_project_script_shape by (simp add: dq_def)
qed

text \<open>
  C2, as the code has it. When an optional field of \<open>add_task\<close> or \<open>add_project\<close> is
  absent or empty, the builder writes no clause for it: the keyword of the field occurs
  nowhere in the rendered text, provided it does not occur inside one of the strings
  the caller supplied for the title and the other fields, which are copied as they are.
  \<open>add_project\<close> has the notes and the area only; its text never holds a due date, a
  project or a tag clause.
\<close>

theorem absent_field_has_no_clause:
  "(absent f notes due_date area project tags \<and>
    (\<forall>s \<in> set (supplied title notes due_date area project tags). \<not> sublist (keyword f) s) \<longrightarrow>
      \<not> sublist (keyword f) (add_task_script title notes due_date area project tags)) \<and>
   (absent f notes None area None None \<and>
    (\<forall>s \<in> set (supplied title notes None area None None). \<not> sublist (keyword f) s) \<longrightarrow>
      \<not> sublist (keyword f) (add_project_script title notes area when))"
  using add_task_keyword_free add_project_keyword_free
  by (intro conjI impI) blast+

lemma milk_is_free:
  "absent Notes [] (Some ''2025-01-01'') None None None \<and>
   (\<forall>s \<in> set (supplied ''Buy milk'' [] (Some ''2025-01-01'') None None None).
      \<not> sublist (keyword Notes) s)"
  "absent Tags [] (Some ''2025-01-01'') None None None \<and>
   (\<forall>s \<in> set (supplied ''Buy milk'' [] (Some ''2025-01-01'') None None None).
      \<not> sublist (keyword Tags) s)"
  "absent Area [] None None None None \<and>
   (\<forall>s \<in> set (supplied ''Garden'' [] None None None None). \<not> sublist (keyword Area) s)"
  by (simp_all add: supplied_def if_set_def truthy_def sublist_code(3))

theorem absent_field_has_no_clause_witness:
  "\<not> sublist ''notes:'' (add_task_script ''Buy milk'' [] (Some ''2025-01-01'') None None None) \<and>
   \<not> sublist ''tag'' (add_task_script ''Buy milk'' [] (Some ''2025-01-01'') None None None) \<and>
   \<not> sublist ''area:'' (add_project_script ''Garden'' [] None ''today'')"
proof (intro conjI)
  from absent_field_has_no_clause [THEN conjunct1, THEN mp, OF milk_is_free(1)]
  show "\<not> sublist ''notes:'' (add_task_script ''Buy milk'' [] (Some ''2025-01-01'') None None None)"
    by simp
  from absent_field_has_no_clause [THEN conjunct1, THEN mp, OF milk_is_free(2)]
  show "\<not> sublist ''tag'' (add_task_script ''Buy milk'' [] (Some ''2025-01-01'') None None None)"
    by simp
  from absent_field_has_no_clause [THEN conjunct2, THEN mp, OF milk_is_free(3), of "''today''"]
  show "\<not> sublist ''area:'' (add_project_script ''Garden'' [] None ''today'')"
    by simp
qed

text \<open>
  C2 as stated fails: with no notes given, a title that holds the text of a notes clause
  is rendered into a command that has one.
\<close>

theorem title_can_hold_a_clause:
  \<open>absent Notes [] None None None None \<and>
   add_task_script ''milk", notes:"injected'' [] None None None None =
     ''tell application "Things3"'' @ newline
       @ ''    set newToDo to make new to do with properties {name:"milk", notes:"injected"}''
       @ newline @ ''    return id of newToDo'' @ newline @ ''end tell'' \<and>
   sublist (keyword Notes) (add_task_script ''milk", notes:"injected'' [] None None None None) \<and>
   sublist (keyword Notes) (add_project_script ''milk", notes:"injected'' [] None ''someday'')\<close>
  by code_simp

section \<open>The rendered scripts: lookup order and the not-found outcome\<close>

lemma skeleton_skip:
  "dq \<notin> set a \<Longrightarrow> skeleton (a @ r) = map_option ((@) a) (skeleton r)"
proof (induction a)
  case Nil
  show ?case
    by (cases "skeleton r") simp_all
next
  case (Cons c a)
  then show ?case
    by (cases "skeleton r") auto
qed

lemma skeleton_bare: "dq \<notin> set a \<Longrightarrow> skeleton a = Some a"
  using skeleton_skip [of a "[]"] by simp

lemma skeleton_append:
  "skeleton a = Some x \<Longrightarrow> skeleton (a @ b) = map_option ((@) x) (skeleton b)"
proof (induction a arbitrary: x rule: skeleton.induct)
  case 1
  then show ?case by (simp add: option.map_ident)
next
  case (2 c s)
  show ?case
  proof (cases "c = dq")
    case False
    with 2(3) obtain x' where "skeleton s = Some x'" and "x = c # x'"
      by auto
    with 2(2) [OF False] False show ?thesis
      by (simp add: option.map_comp comp_def)
  next
    case True
    with 2(3) obtain v rest x' where
      r: "read_chars s = Some (v, rest)" and l: "skeleton rest = Some x'" and x: "x = dq # dq # x'"
      by (auto split: option.splits)
    from 2(1) [OF True r refl l] have "skeleton (rest @ b) = map_option ((@) x') (skeleton b)" .
    with True r x show ?thesis
      by (simp add: read_chars_append option.map_comp comp_def)
  qed
qed

lemma skeleton_append2:
  "skeleton a = Some x \<Longrightarrow> skeleton b = Some y \<Longrightarrow> skeleton (a @ b) = Some (x @ y)"
  by (simp add: skeleton_append)

lemma skeleton_join:
  "list_all2 (\<lambda>l k. skeleton l = Some k) ls ks \<Longrightarrow>
   skeleton (py_join newline ls) = Some (py_join newline ks)"
proof (induction ls ks rule: list_all2_induct)
  case Nil
  then show ?case by simp
next
  case (Cons l ls k ks)
  show ?case
  proof (cases "ls = []")
    case True
    with Cons show ?thesis by simp
  next
    case False
    with Cons.hyps(2) have more: "ks \<noteq> []"
      by auto
    have "skeleton (newline @ py_join newline ls) = Some (newline @ py_join newline ks)"
      using Cons.IH by (simp add: skeleton_skip newline_def dq_def)
    with Cons.hyps(1) False more show ?thesis
      by (simp add: py_join_Cons skeleton_append2)
  qed
qed

lemma skeleton_clause:
  "dq \<notin> set pre \<Longrightarrow> dq \<notin> set post \<Longrightarrow> plain x \<Longrightarrow>
   skeleton (pre @ dq # x @ dq # post) = Some (pre @ dq # dq # post)"
  by (simp add: skeleton_skip read_chars_plain skeleton_bare)

lemma complete_task_script_lines:
  \<open>complete_task_script task_identifier =
     py_join newline
       ['''',
        ''        tell application '' @ dq # ''Things3'' @ dq # [],
        ''            try'',
        ''                set completedToDo to to do id '' @ dq # task_identifier @ dq # [],
        ''                set status of completedToDo to completed'',
        ''                return '' @ dq # ''Task completed successfully (found by ID)'' @ dq # [],
        ''            on error'',
        ''                try'',
        ''                    set completedToDo to to do '' @ dq # task_identifier @ dq # [],
        ''                    set status of completedToDo to completed'',
        ''                    return '' @ dq # ''Task completed successfully (found by title)'' @ dq # [],
        ''                on error'',
        ''                    return '' @ dq # (''Task not found: '' @ task_identifier) @ dq # [],
        ''                end try'',
        ''            end try'',
        ''        end tell'',
        ''        '']\<close>
  by (simp add: complete_task_script_def dq_def)

lemma complete_task_skeleton_lines:
  \<open>complete_task_skeleton =
     py_join newline
       ['''',
        ''        tell application '' @ dq # dq # [],
        ''            try'',
        ''                set completedToDo to to do id '' @ dq # dq # [],
        ''                set status of completedToDo to completed'',
        ''                return '' @ dq # dq # [],
        ''            on error'',
        ''                try'',
        ''                    set completedToDo to to do '' @ dq # dq # [],
        ''                    set status of completedToDo to completed'',
        ''                    return '' @ dq # dq # [],
        ''                on error'',
        ''                    return '' @ dq # dq # [],
        ''                end try'',
        ''            end try'',
        ''        end tell'',
        ''        '']\<close>
  by (simp add: complete_task_skeleton_def dq_def)

lemma complete_task_read:
  assumes "plain task_identifier"
  shows "string_literals (complete_task_script task_identifier) =
           Some [''Things3'', task_identifier, ''Task completed successfully (found by ID)'',
                 task_identifier, ''Task completed successfully (found by title)'',
                 ''Task not found: '' @ task_identifier]"
    and "skeleton (complete_task_script task_identifier) = Some complete_task_skeleton"
proof -
  have message: "plain (''Task not found: '' @ task_identifier)"
    using assms by (simp add: plain_def dq_def backslash_def)
  have fixed:
    "string_literals ('''') = Some []"
    "string_literals (''        tell application '' @ dq # ''Things3'' @ dq # []) = Some [''Things3'']"
    "string_literals (''            try'') = Some []"
    "string_literals (''                set status of completedToDo to completed'') = Some []"
    "string_literals (''                return '' @ dq # ''Task completed successfully (found by ID)'' @ dq # []) = Some [''Task completed successfully (found by ID)'']"
    "string_literals (''            on error'') = Some []"
    "string_literals (''                try'') = Some []"
    "string_literals (''                    set status of completedToDo to completed'') = Some []"
    "string_literals (''                    return '' @ dq # ''Task completed successfully (found by title)'' @ dq # []) = Some [''Task completed successfully (found by title)'']"
    "string_literals (''                on error'') = Some []"
    "string_literals (''                end try'') = Some []"
    "string_literals (''            end try'') = Some []"
    "string_literals (''        end tell'') = Some []"
    "string_literals (''        '') = Some []"
    by code_simp+
  have bare:
    "skeleton ('''') = Some ('''')"
    "skeleton (''        tell application '' @ dq # ''Things3'' @ dq # []) = Some (''        tell application '' @ dq # dq # [])"
    "skeleton (''            try'') = Some (''            try'')"
    "skeleton (''                set status of completedToDo to completed'') = Some (''                set status of completedToDo to completed'')"
    "skeleton (''                return '' @ dq # ''Task completed successfully (found by ID)'' @ dq # []) = Some (''                return '' @ dq # dq # [])"
    "skeleton (''            on error'') = Some (''            on error'')"
    "skeleton (''                try'') = Some (''                try'')"
    "skeleton (''                    set status of completedToDo to completed'') = Some (''                    set status of completedToDo to completed'')"
    "skeleton (''                    return '' @ dq # ''Task completed successfully (found by title)'' @ dq # []) = Some (''                    return '' @ dq # dq # [])"
    "skeleton (''                on error'') = Some (''                on error'')"
    "skeleton (''                end try'') = Some (''                end try'')"
    "skeleton (''            end try'') = Some (''            end try'')"
    "skeleton (''        end tell'') = Some (''        end tell'')"
    "skeleton (''        '') = Some (''        '')"
    by code_simp+
  have by_id:
    "string_literals (''                set completedToDo to to do id '' @ dq # task_identifier @ dq # []) = Some [task_identifier]"
    "skeleton (''                set completedToDo to to do id '' @ dq # task_identifier @ dq # []) = Some (''                set completedToDo to to do id '' @ dq # dq # [])"
    by (rule clause_literals [OF _ _ assms] skeleton_clause [OF _ _ assms]; simp add: dq_def)+
  have by_title:
    "string_literals (''                    set completedToDo to to do '' @ dq # task_identifier @ dq # []) = Some [task_identifier]"
    "skeleton (''                    set completedToDo to to do '' @ dq # task_identifier @ dq # []) = Some (''                    set completedToDo to to do '' @ dq # dq # [])"
    by (rule clause_literals [OF _ _ assms] skeleton_clause [OF _ _ assms]; simp add: dq_def)+
  have not_found:
    "string_literals (''                    return '' @ dq # (''Task not found: '' @ task_identifier) @ dq # []) = Some [''Task not found: '' @ task_identifier]"
    "skeleton (''                    return '' @ dq # (''Task not found: '' @ task_identifier) @ dq # []) = Some (''                    return '' @ dq # dq # [])"
    by (rule clause_literals [OF _ _ message] skeleton_clause [OF _ _ message]; simp add: dq_def)+
  have "list_all2 (\<lambda>l x. string_literals l = Some x)
      ['''',
       ''        tell application '' @ dq # ''Things3'' @ dq # [],
       ''            try'',
       ''                set completedToDo to to do id '' @ dq # task_identifier @ dq # [],
       ''                set status of completedToDo to completed'',
       ''                return '' @ dq # ''Task completed successfully (found by ID)'' @ dq # [],
       ''            on error'',
       ''                try'',
       ''                    set completedToDo to to do '' @ dq # task_identifier @ dq # [],
       ''                    set status of completedToDo to completed'',
       ''                    return '' @ dq # ''Task completed successfully (found by title)'' @ dq # [],
       ''                on error'',
       ''                    return '' @ dq # (''Task not found: '' @ task_identifier) @ dq # [],
       ''                end try'',
       ''            end try'',
       ''        end tell'',
       ''        '']
      [[],
       [''Things3''],
       [],
       [task_identifier],
       [],
       [''Task completed successfully (found by ID)''],
       [],
       [],
       [task_identifier],
       [],
       [''Task completed successfully (found by title)''],
       [],
       [''Task not found: '' @ task_identifier],
       [],
       [],
       [],
       []]"
    by (intro list.rel_intros fixed by_id by_title not_found)
  from literals_join [OF this]
  show "string_literals (complete_task_script task_identifier) =
           Some [''Things3'', task_identifier, ''Task completed successfully (found by ID)'',
                 task_identifier, ''Task completed successfully (found by title)'',
                 ''Task not found: '' @ task_identifier]"
    unfolding complete_task_script_lines by simp
  have "list_all2 (\<lambda>l k. skeleton l = Some k)
      ['''',
       ''        tell application '' @ dq # ''Things3'' @ dq # [],
       ''            try'',
       ''                set completedToDo to to do id '' @ dq # task_identifier @ dq # [],
       ''                set status of completedToDo to completed'',
       ''                return '' @ dq # ''Task completed successfully (found by ID)'' @ dq # [],
       ''            on error'',
       ''                try'',
       ''                    set completedToDo to to do '' @ dq # task_identifier @ dq # [],
       ''                    set status of completedToDo to completed'',
       ''                    return '' @ dq # ''Task completed successfully (found by title)'' @ dq # [],
       ''                on error'',
       ''                    return '' @ dq # (''Task not found: '' @ task_identifier) @ dq # [],
       ''                end try'',
       ''            end try'',
       ''        end tell'',
       ''        '']
      ['''',
       ''        tell application '' @ dq # dq # [],
       ''            try'',
       ''                set completedToDo to to do id '' @ dq # dq # [],
       ''                set status of completedToDo to completed'',
       ''                return '' @ dq # dq # [],
       ''            on error'',
       ''                try'',
       ''                    set completedToDo to to do '' @ dq # dq # [],
       ''                    set status of completedToDo to completed'',
       ''                    return '' @ dq # dq # [],
       ''                on error'',
       ''                    return '' @ dq # dq # [],
       ''                end try'',
       ''            end try'',
       ''        end tell'',
       ''        '']"
    by (intro list.rel_intros bare by_id by_title not_found)
  from skeleton_join [OF this]
  show "skeleton (complete_task_script task_identifier) = Some complete_task_skeleton"
    unfolding complete_task_script_lines complete_task_skeleton_lines .
qed

lemma update_task_script_lines:
  \<open>update_task_script task_identifier title notes due_date tags =
     py_join newline
       ([''tell application '' @ dq # ''Things3'' @ dq # [],
         ''    try'',
         ''        set targetToDo to to do id '' @ dq # task_identifier @ dq # [],
         ''    on error'',
         ''        try'',
         ''            set targetToDo to to do '' @ dq # task_identifier @ dq # [],
         ''        on error'',
         ''            return '' @ dq # ''Task not found'' @ dq # [],
         ''        end try'',
         ''    end try'',
         ''    '',
         ''    set updateResult to '' @ dq # dq # []]
        @ if_set title (\<lambda>x.
            [''    set name of targetToDo to '' @ dq # x @ dq # [],
             ''    set updateResult to updateResult & '' @ dq # ''Title updated. '' @ dq # []])
        @ if_set notes (\<lambda>x.
            [''    set notes of targetToDo to '' @ dq # x @ dq # [],
             ''    set updateResult to updateResult & '' @ dq # ''Notes updated. '' @ dq # []])
        @ if_set due_date (\<lambda>x.
            [''    set due date of targetToDo to date('' @ dq # x @ dq # '')'',
             ''    set updateResult to updateResult & '' @ dq # ''Due date updated. '' @ dq # []])
        @ [''    return updateResult'',
           ''end tell''])\<close>
  by (simp add: update_task_script_def dq_def)

lemma update_task_skeleton_lines:
  \<open>update_task_skeleton with_title with_notes with_due_date =
     py_join newline
       ([''tell application '' @ dq # dq # [],
         ''    try'',
         ''        set targetToDo to to do id '' @ dq # dq # [],
         ''    on error'',
         ''        try'',
         ''            set targetToDo to to do '' @ dq # dq # [],
         ''        on error'',
         ''            return '' @ dq # dq # [],
         ''        end try'',
         ''    end try'',
         ''    '',
         ''    set updateResult to '' @ dq # dq # []]
        @ (if with_title then
            [''    set name of targetToDo to '' @ dq # dq # [],
             ''    set updateResult to updateResult & '' @ dq # dq # []]
           else [])
        @ (if with_notes then
            [''    set notes of targetToDo to '' @ dq # dq # [],
             ''    set updateResult to updateResult & '' @ dq # dq # []]
           else [])
        @ (if with_due_date then
            [''    set due date of targetToDo to date('' @ dq # dq # '')'',
             ''    set updateResult to updateResult & '' @ dq # dq # []]
           else [])
        @ [''    return updateResult'',
           ''end tell''])\<close>
  by (simp add: update_task_skeleton_def dq_def)

lemma optional_skeleton_lines:
  assumes "\<And>x. v = Some x \<Longrightarrow> x \<noteq> [] \<Longrightarrow> list_all2 P (f x) g"
  shows "list_all2 P (if_set v f) (if truthy v then g else [])"
  using assms by (cases v) (simp_all add: if_set_def truthy_def)

lemma update_task_skeleton_read:
  assumes "plain task_identifier"
    and "\<forall>s \<in> set (if_set title (\<lambda>x. [x]) @ if_set notes (\<lambda>x. [x]) @ if_set due_date (\<lambda>x. [x])). plain s"
  shows "skeleton (update_task_script task_identifier title notes due_date tags) =
           Some (update_task_skeleton (truthy title) (truthy notes) (truthy due_date))"
proof -
  have pt: "plain x" if "title = Some x" "x \<noteq> []" for x
    using assms(2) that by (simp add: if_set_def)
  have pn: "plain x" if "notes = Some x" "x \<noteq> []" for x
    using assms(2) that by (simp add: if_set_def)
  have pd: "plain x" if "due_date = Some x" "x \<noteq> []" for x
    using assms(2) that by (simp add: if_set_def)
  have bare:
    "skeleton (''tell application '' @ dq # ''Things3'' @ dq # []) = Some (''tell application '' @ dq # dq # [])"
    "skeleton (''    try'') = Some (''    try'')"
    "skeleton (''    on error'') = Some (''    on error'')"
    "skeleton (''        try'') = Some (''        try'')"
    "skeleton (''        on error'') = Some (''        on error'')"
    "skeleton (''            return '' @ dq # ''Task not found'' @ dq # []) = Some (''            return '' @ dq # dq # [])"
    "skeleton (''        end try'') = Some (''        end try'')"
    "skeleton (''    end try'') = Some (''    end try'')"
    "skeleton (''    '') = Some (''    '')"
    "skeleton (''    set updateResult to '' @ dq # dq # []) = Some (''    set updateResult to '' @ dq # dq # [])"
    "skeleton (''    set updateResult to updateResult & '' @ dq # ''Title updated. '' @ dq # []) = Some (''    set updateResult to updateResult & '' @ dq # dq # [])"
    "skeleton (''    set updateResult to updateResult & '' @ dq # ''Notes updated. '' @ dq # []) = Some (''    set updateResult to updateResult & '' @ dq # dq # [])"
    "skeleton (''    set updateResult to updateResult & '' @ dq # ''Due date updated. '' @ dq # []) = Some (''    set updateResult to updateResult & '' @ dq # dq # [])"
    "skeleton (''    return updateResult'') = Some (''    return updateResult'')"
    "skeleton (''end tell'') = Some (''end tell'')"
    by code_simp+
  have by_id:
    "skeleton (''        set targetToDo to to do id '' @ dq # task_identifier @ dq # []) = Some (''        set targetToDo to to do id '' @ dq # dq # [])"
    by (rule skeleton_clause [OF _ _ assms(1)]) (simp_all add: dq_def)
  have by_title:
    "skeleton (''            set targetToDo to to do '' @ dq # task_identifier @ dq # []) = Some (''            set targetToDo to to do '' @ dq # dq # [])"
    by (rule skeleton_clause [OF _ _ assms(1)]) (simp_all add: dq_def)
  have set_title:
    "skeleton (''    set name of targetToDo to '' @ dq # x @ dq # []) = Some (''    set name of targetToDo to '' @ dq # dq # [])"
    if "plain x" for x
    by (rule skeleton_clause [OF _ _ that]) (simp_all add: dq_def)
  have set_notes:
    "skeleton (''    set notes of targetToDo to '' @ dq # x @ dq # []) = Some (''    set notes of targetToDo to '' @ dq # dq # [])"
    if "plain x" for x
    by (rule skeleton_clause [OF _ _ that]) (simp_all add: dq_def)
  have set_due:
    "skeleton (''    set due date of targetToDo to date('' @ dq # x @ dq # '')'') = Some (''    set due date of targetToDo to date('' @ dq # dq # '')'')"
    if "plain x" for x
    by (rule skeleton_clause [OF _ _ that]) (simp_all add: dq_def)
  have title_lines: "list_all2 (\<lambda>l k. skeleton l = Some k)
      (if_set title (\<lambda>x.
            [''    set name of targetToDo to '' @ dq # x @ dq # [],
             ''    set updateResult to updateResult & '' @ dq # ''Title updated. '' @ dq # []]))
      (if truthy title then
            [''    set name of targetToDo to '' @ dq # dq # [],
             ''    set updateResult to updateResult & '' @ dq # dq # []]
           else [])"
    by (intro optional_skeleton_lines list.rel_intros set_title pt bare)
  have notes_lines: "list_all2 (\<lambda>l k. skeleton l = Some k)
      (if_set notes (\<lambda>x.
            [''    set notes of targetToDo to '' @ dq # x @ dq # [],
             ''    set updateResult to updateResult & '' @ dq # ''Notes updated. '' @ dq # []]))
      (if truthy notes then
            [''    set notes of targetToDo to '' @ dq # dq # [],
             ''    set updateResult to updateResult & '' @ dq # dq # []]
           else [])"
    by (intro optional_skeleton_lines list.rel_intros set_notes pn bare)
  have due_lines: "list_all2 (\<lambda>l k. skeleton l = Some k)
      (if_set due_date (\<lambda>x.
            [''    set due date of targetToDo to date('' @ dq # x @ dq # '')'',
             ''    set updateResult to updateResult & '' @ dq # ''Due date updated. '' @ dq # []]))
      (if truthy due_date then
            [''    set due date of targetToDo to date('' @ dq # dq # '')'',
             ''    set updateResult to updateResult & '' @ dq # dq # []]
           else [])"
    by (intro optional_skeleton_lines list.rel_intros set_due pd bare)
  have first_lines: "list_all2 (\<lambda>l k. skeleton l = Some k)
      [''tell application '' @ dq # ''Things3'' @ dq # [],
       ''    try'',
       ''        set targetToDo to to do id '' @ dq # task_identifier @ dq # [],
       ''    on error'',
       ''        try'',
       ''            set targetToDo to to do '' @ dq # task_identifier @ dq # [],
       ''        on error'',
       ''            return '' @ dq # ''Task not found'' @ dq # [],
       ''        end try'',
       ''    end try'',
       ''    '',
       ''    set updateResult to '' @ dq # dq # []]
      [''tell application '' @ dq # dq # [],
       ''    try'',
       ''        set targetToDo to to do id '' @ dq # dq # [],
       ''    on error'',
       ''        try'',
       ''            set targetToDo to to do '' @ dq # dq # [],
       ''        on error'',
       ''            return '' @ dq # dq # [],
       ''        end try'',
       ''    end try'',
       ''    '',
       ''    set updateResult to '' @ dq # dq # []]"
    by (intro list.rel_intros bare by_id by_title)
  have last_lines: "list_all2 (\<lambda>l k. skeleton l = Some k)
      [''    return updateResult'',
       ''end tell'']
      [''    return updateResult'',
       ''end tell'']"
    by (intro list.rel_intros bare)
  have "list_all2 (\<lambda>l k. skeleton l = Some k)
      ([''tell application '' @ dq # ''Things3'' @ dq # [],
         ''    try'',
         ''        set targetToDo to to do id '' @ dq # task_identifier @ dq # [],
         ''    on error'',
         ''        try'',
         ''            set targetToDo to to do '' @ dq # task_identifier @ dq # [],
         ''        on error'',
         ''            return '' @ dq # ''Task not found'' @ dq # [],
         ''        end try'',
         ''    end try'',
         ''    '',
         ''    set updateResult to '' @ dq # dq # []]
        @ if_set title (\<lambda>x.
            [''    set name of targetToDo to '' @ dq # x @ dq # [],
             ''    set updateResult to updateResult & '' @ dq # ''Title updated. '' @ dq # []])
        @ if_set notes (\<lambda>x.
            [''    set notes of targetToDo to '' @ dq # x @ dq # [],
             ''    set updateResult to updateResult & '' @ dq # ''Notes updated. '' @ dq # []])
        @ if_set due_date (\<lambda>x.
            [''    set due date of targetToDo to date('' @ dq # x @ dq # '')'',
             ''    set updateResult to updateResult & '' @ dq # ''Due date updated. '' @ dq # []])
        @ [''    return updateResult'',
           ''end tell''])
      ([''tell application '' @ dq # dq # [],
         ''    try'',
         ''        set targetToDo to to do id '' @ dq # dq # [],
         ''    on error'',
         ''        try'',
         ''            set targetToDo to to do '' @ dq # dq # [],
         ''        on error'',
         ''            return '' @ dq # dq # [],
         ''        end try'',
         ''    end try'',
         ''    '',
         ''    set updateResult to '' @ dq # dq # []]
        @ (if truthy title then
            [''    set name of targetToDo to '' @ dq # dq # [],
             ''    set updateResult to updateResult & '' @ dq # dq # []]
           else [])
        @ (if truthy notes then
            [''    set notes of targetToDo to '' @ dq # dq # [],
             ''    set updateResult to updateResult & '' @ dq # dq # []]
           else [])
        @ (if truthy due_date then
            [''    set due date of targetToDo to date('' @ dq # dq # '')'',
             ''    set updateResult to updateResult & '' @ dq # dq # []]
           else [])
        @ [''    return updateResult'',
           ''end tell''])"
    by (intro list_all2_appendI first_lines title_lines notes_lines due_lines last_lines)
  from skeleton_join [OF this]
  show ?thesis
    unfolding update_task_script_lines update_task_skeleton_lines .
qed

lemma complete_task_applescript_plain:
  assumes "plain task_identifier"
  shows "complete_task_applescript to_do_id to_do_named set_completed
           (complete_task_script task_identifier) =
     (let on_error =
        (case to_do_named task_identifier of
           Some completedToDo \<Rightarrow>
             if set_completed completedToDo
             then Returned ''Task completed successfully (found by title)''
             else Returned (''Task not found: '' @ task_identifier)
         | None \<Rightarrow> Returned (''Task not found: '' @ task_identifier))
      in case to_do_id task_identifier of
           Some completedToDo \<Rightarrow>
             if set_completed completedToDo
             then Returned ''Task completed successfully (found by ID)''
             else on_error
         | None \<Rightarrow> on_error)"
  unfolding complete_task_applescript_def complete_task_read [OF assms]
  by (simp only: simp_thms if_True option.case list.case Let_def)

lemma update_task_shapes_differ:
  "\<forall>a b c.
     find (\<lambda>(with_title, with_notes, with_due_date).
             Some (update_task_skeleton a b c)
             = Some (update_task_skeleton with_title with_notes with_due_date))
       update_task_shapes = Some (a, b, c)"
  by code_simp

lemma update_task_shape:
  "find (\<lambda>(with_title, with_notes, with_due_date).
           Some (update_task_skeleton a b c)
           = Some (update_task_skeleton with_title with_notes with_due_date))
     update_task_shapes = Some (a, b, c)"
  using update_task_shapes_differ by blast

lemma update_task_pairs:
  "pair_steps
     ((if truthy title then [set_name] else [])
      @ (if truthy notes then [set_notes] else [])
      @ (if truthy due_date then [set_due_date] else []))
     (if_set title (\<lambda>x. [x, ''Title updated. ''])
      @ if_set notes (\<lambda>x. [x, ''Notes updated. ''])
      @ if_set due_date (\<lambda>x. [x, ''Due date updated. ''])) =
   if_set title (\<lambda>title. [(set_name title, ''Title updated. '')])
   @ if_set notes (\<lambda>notes. [(set_notes notes, ''Notes updated. '')])
   @ if_set due_date (\<lambda>due_date. [(set_due_date due_date, ''Due date updated. '')])"
  by (simp add: if_set_def truthy_def split: option.splits)

lemma update_task_applescript_plain:
  assumes "plain task_identifier"
    and "\<forall>s \<in> set (if_set title (\<lambda>x. [x]) @ if_set notes (\<lambda>x. [x]) @ if_set due_date (\<lambda>x. [x])). plain s"
  shows "update_task_applescript to_do_id to_do_named set_name set_notes set_due_date
           (update_task_script task_identifier title notes due_date tags) =
     (let steps =
            if_set title (\<lambda>title. [(set_name title, ''Title updated. '')])
          @ if_set notes (\<lambda>notes. [(set_notes notes, ''Notes updated. '')])
          @ if_set due_date (\<lambda>due_date. [(set_due_date due_date, ''Due date updated. '')])
      in case to_do_id task_identifier of
           Some targetToDo \<Rightarrow> update_steps targetToDo steps []
         | None \<Rightarrow>
             (case to_do_named task_identifier of
                Some targetToDo \<Rightarrow> update_steps targetToDo steps []
              | None \<Rightarrow> Returned ''Task not found''))"
  unfolding update_task_applescript_def update_task_literals [OF assms]
    update_task_skeleton_read [OF assms] update_task_shape
  by (simp only: option.case prod.case list.case append_Cons append_Nil Let_def
        update_task_pairs)

lemma update_steps_result:
  "update_steps t steps acc = Returned r \<Longrightarrow> r = acc @ concat (map snd steps)"
  by (induction t steps acc rule: update_steps.induct) (auto split: if_splits)

lemma update_messages_differ:
  "concat (map snd
     (if_set title (\<lambda>title. [(set_name title, ''Title updated. '')])
      @ if_set notes (\<lambda>notes. [(set_notes notes, ''Notes updated. '')])
      @ if_set due_date (\<lambda>due_date. [(set_due_date due_date, ''Due date updated. '')])))
   \<noteq> ''Task not found''"
  by (simp add: if_set_def split: option.splits)

lemma update_found_differs:
  assumes "plain task_identifier"
    and "\<forall>s \<in> set (if_set title (\<lambda>x. [x]) @ if_set notes (\<lambda>x. [x]) @ if_set due_date (\<lambda>x. [x])). plain s"
    and "to_do_id task_identifier \<noteq> None \<or> to_do_named task_identifier \<noteq> None"
  shows "update_task_applescript to_do_id to_do_named set_name set_notes set_due_date
           (update_task_script task_identifier title notes due_date tags)
         \<noteq> Returned ''Task not found''"
proof
  assume eq: "update_task_applescript to_do_id to_do_named set_name set_notes set_due_date
           (update_task_script task_identifier title notes due_date tags) = Returned ''Task not found''"
  from assms(3) obtain t where
    "update_steps t
       (if_set title (\<lambda>title. [(set_name title, ''Title updated. '')])
        @ if_set notes (\<lambda>notes. [(set_notes notes, ''Notes updated. '')])
        @ if_set due_date (\<lambda>due_date. [(set_due_date due_date, ''Due date updated. '')])) []
     = Returned ''Task not found''"
    using eq unfolding update_task_applescript_plain [OF assms(1,2)]
    by (auto simp: Let_def split: option.splits)
  from update_steps_result [OF this] update_messages_differ
  show False by fastforce
qed

text \<open>
  C5, as the code has it. The task identifier is put into the script as it is. When it
  holds neither a quote nor a backslash, the script of \<open>complete_task\<close> is the template
  over that identifier: it refers to the task by identifier first and by title only
  when that fails; when both fail it returns \<open>Task not found: <identifier>\<close>, a text
  that differs from both success texts. When also the new title, notes and due date
  hold neither, the script of \<open>update_task\<close> does the same and returns
  \<open>Task not found\<close>, which no successful update returns. The script ends normally in
  these cases, so the invoker gives the methods its trimmed output as their result, and
  the handler gives it as the text of the response: no exception is raised.
\<close>

theorem lookup_fallback_not_found:
  "(plain task_identifier \<and> to_do_id task_identifier = None
      \<and> to_do_named task_identifier = None \<longrightarrow>
      complete_task_applescript to_do_id to_do_named set_completed
        (complete_task_script task_identifier) =
        Returned (''Task not found: '' @ task_identifier)) \<and>
   (plain task_identifier
      \<and> (\<forall>s \<in> set (if_set title (\<lambda>x. [x]) @ if_set notes (\<lambda>x. [x])
                       @ if_set due_date (\<lambda>x. [x])). plain s)
      \<and> to_do_id task_identifier = None \<and> to_do_named task_identifier = None \<longrightarrow>
      update_task_applescript to_do_id to_do_named set_name set_notes set_due_date
        (update_task_script task_identifier title notes due_date tags) =
        Returned ''Task not found'') \<and>
   (plain task_identifier \<and> to_do_id task_identifier = Some t \<and> set_completed t \<longrightarrow>
      complete_task_applescript to_do_id to_do_named set_completed
        (complete_task_script task_identifier) =
        Returned ''Task completed successfully (found by ID)'') \<and>
   (plain task_identifier \<and> to_do_id task_identifier = None
      \<and> to_do_named task_identifier = Some t \<and> set_completed t \<longrightarrow>
      complete_task_applescript to_do_id to_do_named set_completed
        (complete_task_script task_identifier) =
        Returned ''Task completed successfully (found by title)'') \<and>
   (plain task_identifier
      \<and> (\<forall>s \<in> set (if_set title (\<lambda>x. [x]) @ if_set notes (\<lambda>x. [x])
                       @ if_set due_date (\<lambda>x. [x])). plain s)
      \<and> to_do_id task_identifier \<noteq> None \<longrightarrow>
      update_task_applescript to_do_id to_do_named set_name set_notes set_due_date
        (update_task_script task_identifier title notes due_date tags) =
      update_task_applescript to_do_id (\<lambda>_. None) set_name set_notes set_due_date
        (update_task_script task_identifier title notes due_date tags)) \<and>
   (plain task_identifier
      \<and> (\<forall>s \<in> set (if_set title (\<lambda>x. [x]) @ if_set notes (\<lambda>x. [x])
                       @ if_set due_date (\<lambda>x. [x])). plain s)
      \<and> (to_do_id task_identifier \<noteq> None \<or> to_do_named task_identifier \<noteq> None) \<longrightarrow>
      update_task_applescript to_do_id to_do_named set_name set_notes set_due_date
        (update_task_script task_identifier title notes due_date tags)
      \<noteq> Returned ''Task not found'') \<and>
   ''Task not found: '' @ task_identifier \<noteq> ''Task completed successfully (found by ID)'' \<and>
   ''Task not found: '' @ task_identifier \<noteq> ''Task completed successfully (found by title)'' \<and>
   (run [''osascript'', ''-e'', complete_task_script task_identifier] = CompletedProcess 0 out err \<longrightarrow>
      complete_task run task_identifier = Inr (strip out) \<and>
      (arg_task_id (given_arguments arguments) = Some task_identifier \<longrightarrow>
         handle_call_tool run ''complete_task'' arguments = [strip out])) \<and>
   (run [''osascript'', ''-e'', update_task_script task_identifier title notes due_date tags] =
      CompletedProcess 0 out err \<longrightarrow>
      update_task run task_identifier title notes due_date tags = Inr (strip out))"
proof (intro conjI impI)
  assume "plain task_identifier \<and> to_do_id task_identifier = None
      \<and> to_do_named task_identifier = None"
  then show "complete_task_applescript to_do_id to_do_named set_completed
        (complete_task_script task_identifier) =
        Returned (''Task not found: '' @ task_identifier)"
    by (simp add: complete_task_applescript_plain)
next
  assume "plain task_identifier
      \<and> (\<forall>s \<in> set (if_set title (\<lambda>x. [x]) @ if_set notes (\<lambda>x. [x])
                       @ if_set due_date (\<lambda>x. [x])). plain s)
      \<and> to_do_id task_identifier = None \<and> to_do_named task_identifier = None"
  then show "update_task_applescript to_do_id to_do_named set_name set_notes set_due_date
        (update_task_script task_identifier title notes due_date tags) =
        Returned ''Task not found''"
    by (simp add: update_task_applescript_plain)
next
  assume "plain task_identifier \<and> to_do_id task_identifier = Some t \<and> set_completed t"
  then show "complete_task_applescript to_do_id to_do_named set_completed
        (complete_task_script task_identifier) =
        Returned ''Task completed successfully (found by ID)''"
    by (simp add: complete_task_applescript_plain)
next
  assume "plain task_identifier \<and> to_do_id task_identifier = None
      \<and> to_do_named task_identifier = Some t \<and> set_completed t"
  then show "complete_task_applescript to_do_id to_do_named set_completed
        (complete_task_script task_identifier) =
        Returned ''Task completed successfully (found by title)''"
    by (simp add: complete_task_applescript_plain)
next
  assume a: "plain task_identifier
      \<and> (\<forall>s \<in> set (if_set title (\<lambda>x. [x]) @ if_set notes (\<lambda>x. [x])
                       @ if_set due_date (\<lambda>x. [x])). plain s)
      \<and> to_do_id task_identifier \<noteq> None"
  then obtain found where "to_do_id task_identifier = Some found"
    by auto
  with a show "update_task_applescript to_do_id to_do_named set_name set_notes set_due_date
        (update_task_script task_identifier title notes due_date tags) =
      update_task_applescript to_do_id (\<lambda>_. None) set_name set_notes set_due_date
        (update_task_script task_identifier title notes due_date tags)"
    by (simp add: update_task_applescript_plain)
next
  assume "plain task_identifier
      \<and> (\<forall>s \<in> set (if_set title (\<lambda>x. [x]) @ if_set notes (\<lambda>x. [x])
                       @ if_set due_date (\<lambda>x. [x])). plain s)
      \<and> (to_do_id task_identifier \<noteq> None \<or> to_do_named task_identifier \<noteq> None)"
  then show "update_task_applescript to_do_id to_do_named set_name set_notes set_due_date
        (update_task_script task_identifier title notes due_date tags)
      \<noteq> Returned ''Task not found''"
    by (intro update_found_differs) simp_all
next
  assume "run [''osascript'', ''-e'', complete_task_script task_identifier] = CompletedProcess 0 out err"
    and "arg_task_id (given_arguments arguments) = Some task_identifier"
  then show "handle_call_tool run ''complete_task'' arguments = [strip out]"
    by (simp add: handle_call_tool_def handle_call_tool_try_def required_def then_do_def
          complete_task_def execute_applescript_def execute_applescript_try_def)
next
  assume "run [''osascript'', ''-e'', complete_task_script task_identifier] = CompletedProcess 0 out err"
  then show "complete_task run task_identifier = Inr (strip out)"
    by (simp add: complete_task_def execute_applescript_def execute_applescript_try_def)
next
  assume "run [''osascript'', ''-e'', update_task_script task_identifier title notes due_date tags] =
      CompletedProcess 0 out err"
  then show "update_task run task_identifier title notes due_date tags = Inr (strip out)"
    by (simp add: update_task_def execute_applescript_def execute_applescript_try_def)
qed simp_all

lemma not_found_output: "strip (''Task not found: X9'' @ newline) = ''Task not found: X9''"
  by code_simp

lemma plain_identifier_examples:
  "plain ''X9''"
  "\<forall>s \<in> set (if_set (Some ''New title'') (\<lambda>x. [x]) @ if_set None (\<lambda>x. [x])
                @ if_set None (\<lambda>x. [x])). plain s"
  by (simp_all add: if_set_def plain_def dq_def backslash_def)

theorem lookup_fallback_not_found_witness:
  "complete_task_applescript (\<lambda>_. None :: unit option) (\<lambda>_. None) (\<lambda>_. True)
     (complete_task_script ''X9'') = Returned ''Task not found: X9'' \<and>
   update_task_applescript (\<lambda>_. None :: unit option) (\<lambda>_. None) (\<lambda>_ _. True) (\<lambda>_ _. True)
     (\<lambda>_ _. True) (update_task_script ''X9'' (Some ''New title'') None None None) =
     Returned ''Task not found'' \<and>
   complete_task_applescript (\<lambda>i. if i = ''X9'' then Some () else None) (\<lambda>_. Some ()) (\<lambda>_. True)
     (complete_task_script ''X9'') = Returned ''Task completed successfully (found by ID)'' \<and>
   complete_task (\<lambda>_. CompletedProcess 0 (''Task not found: X9'' @ newline) []) ''X9'' =
     Inr ''Task not found: X9'' \<and>
   handle_call_tool (\<lambda>_. CompletedProcess 0 (''Task not found: X9'' @ newline) []) ''complete_task''
     (Some (no_arguments \<lparr> arg_task_id := Some ''X9'' \<rparr>)) = [''Task not found: X9'']"
proof (intro conjI)
  note inst = lookup_fallback_not_found
    [of "''X9''" "\<lambda>_. None :: unit option" "\<lambda>_. None" "\<lambda>_. True" "Some ''New title''" None None
        "\<lambda>_ _. True" "\<lambda>_ _. True" "\<lambda>_ _. True" None "()"
        "\<lambda>_. CompletedProcess 0 (''Task not found: X9'' @ newline) []"
        "''Task not found: X9'' @ newline" "[]"
        "Some (no_arguments \<lparr> arg_task_id := Some ''X9'' \<rparr>)"]
  from inst plain_identifier_examples(1)
  show "complete_task_applescript (\<lambda>_. None :: unit option) (\<lambda>_. None) (\<lambda>_. True)
     (complete_task_script ''X9'') = Returned ''Task not found: X9''"
    by simp
  from inst [THEN conjunct2, THEN conjunct1] plain_identifier_examples
  show "update_task_applescript (\<lambda>_. None :: unit option) (\<lambda>_. None) (\<lambda>_ _. True) (\<lambda>_ _. True)
     (\<lambda>_ _. True) (update_task_script ''X9'' (Some ''New title'') None None None) =
     Returned ''Task not found''"
    by blast
  from lookup_fallback_not_found
    [of "''X9''" "\<lambda>i. if i = ''X9'' then Some () else None" "\<lambda>_. Some ()" "\<lambda>_. True" _ _ _ _ _ _ _ "()",
     THEN conjunct2, THEN conjunct2, THEN conjunct1]
    plain_identifier_examples(1)
  show "complete_task_applescript (\<lambda>i. if i = ''X9'' then Some () else None) (\<lambda>_. Some ()) (\<lambda>_. True)
     (complete_task_script ''X9'') = Returned ''Task completed successfully (found by ID)''"
    by simp
  from inst have "complete_task (\<lambda>_. CompletedProcess 0 (''Task not found: X9'' @ newline) []) ''X9'' =
     Inr (strip (''Task not found: X9'' @ newline))"
    by simp
  then show "complete_task (\<lambda>_. CompletedProcess 0 (''Task not found: X9'' @ newline) []) ''X9'' =
     Inr ''Task not found: X9''"
    by (simp only: not_found_output)
  have "arg_task_id (given_arguments (Some (no_arguments \<lparr> arg_task_id := Some ''X9'' \<rparr>))) = Some ''X9''"
    by (simp add: given_arguments_def)
  with inst have "handle_call_tool (\<lambda>_. CompletedProcess 0 (''Task not found: X9'' @ newline) []) ''complete_task''
     (Some (no_arguments \<lparr> arg_task_id := Some ''X9'' \<rparr>)) = [strip (''Task not found: X9'' @ newline)]"
    by simp
  then show "handle_call_tool (\<lambda>_. CompletedProcess 0 (''Task not found: X9'' @ newline) []) ''complete_task''
     (Some (no_arguments \<lparr> arg_task_id := Some ''X9'' \<rparr>)) = [''Task not found: X9'']"
    by (simp only: not_found_output)
qed

text \<open>
  C5 as stated fails, for identifiers with a quote or a backslash. With the identifier
  \<open>a"b\<close> and no task of that identifier or title, the text rendered by \<open>complete_task\<close>
  has a literal that is never closed: it is no script, and when the system answers it
  with a non-zero return code the response is the generic
  \<open>Error executing complete_task: ...\<close>, not a not-found message. The text rendered by
  \<open>update_task\<close> for that identifier is not the template either: its \<open>on error\<close> and
  \<open>try\<close> lines stand inside a literal. With the identifier \<open>C:\new\<close> the not-found
  message of \<open>complete_task\<close> names another string, with a line break in it.
\<close>

theorem unescaped_identifier:
  \<open>string_literals (complete_task_script ''a"b'') = None \<and>
   complete_task_applescript (\<lambda>_. None :: unit option) (\<lambda>_. None) (\<lambda>_. True)
     (complete_task_script ''a"b'') = ScriptError \<and>
   handle_call_tool
     (\<lambda>argv. if string_literals (last argv) = None
              then CompletedProcess 1 [] ''syntax error'' else CompletedProcess 0 ''ok'' [])
     ''complete_task'' (Some (no_arguments \<lparr> arg_task_id := Some ''a"b'' \<rparr>)) =
     [''Error executing complete_task: Failed to execute AppleScript: AppleScript error: syntax error''] \<and>
   string_literals (update_task_script ''a"b'' None None None None) =
     Some [''Things3'', ''a'',
           newline @ ''    on error'' @ newline @ ''        try'' @ newline
             @ ''            set targetToDo to to do '',
           ''b'', ''Task not found'', []] \<and>
   update_task_applescript (\<lambda>_. None :: unit option) (\<lambda>_. None) (\<lambda>_ _. True) (\<lambda>_ _. True)
     (\<lambda>_ _. True) (update_task_script ''a"b'' None None None None) = OtherScript \<and>
   complete_task_applescript (\<lambda>_. None :: unit option) (\<lambda>_. None) (\<lambda>_. True)
     (complete_task_script (''C:'' @ [backslash] @ ''new'')) =
     Returned (''Task not found: C:'' @ newline @ ''ew'')\<close>
  by code_simp

end
